theory Spec2Isabelle
  imports Complex_Main
begin

chapter \<open>The crawl pipeline of the price tracker\<close>

text \<open>
  A shallow embedding of the crawl, extract, diff and insight pipeline and of its scheduler
  entry points. Strings are \<^typ>\<open>string\<close>; dates are their \<open>getTime()\<close> value in
  milliseconds (\<^typ>\<open>int\<close>); JavaScript numbers that hold prices and percentages are
  exact rationals (\<^typ>\<open>rat\<close>), so the binary rounding of doubles is outside the model;
  a value that may be \<open>null\<close> or \<open>undefined\<close> is an \<^typ>\<open>'a option\<close>; a promise that
  may reject is a sum whose \<open>Inl\<close> carries what was thrown.
\<close>

section \<open>Strings\<close>

text \<open>
  The white space removed by \<open>String.prototype.trim\<close> and matched by \<open>\s\<close>, restricted
  to the characters of \<^typ>\<open>char\<close>: space, tab, line feed, vertical tab, form feed and
  carriage return.
\<close>

definition isSpace :: "char \<Rightarrow> bool" where
  "isSpace c \<longleftrightarrow> c \<in> set [CHR '' '', CHR 0x09, CHR 0x0A, CHR 0x0B, CHR 0x0C, CHR 0x0D]"

definition trim :: "string \<Rightarrow> string" where
  "trim s = rev (dropWhile isSpace (rev (dropWhile isSpace s)))"

definition isDigit :: "char \<Rightarrow> bool" where
  "isDigit c \<longleftrightarrow> (48::nat) \<le> of_char c \<and> of_char c \<le> (57::nat)"

definition isUpper :: "char \<Rightarrow> bool" where
  "isUpper c \<longleftrightarrow> (65::nat) \<le> of_char c \<and> of_char c \<le> (90::nat)"

definition isLower :: "char \<Rightarrow> bool" where
  "isLower c \<longleftrightarrow> (97::nat) \<le> of_char c \<and> of_char c \<le> (122::nat)"

definition lowerChar :: "char \<Rightarrow> char" where
  "lowerChar c = (if isUpper c then char_of (of_char c + (32::nat)) else c)"

definition upperChar :: "char \<Rightarrow> char" where
  "upperChar c = (if isLower c then char_of (of_char c - (32::nat)) else c)"

definition toLowerCase :: "string \<Rightarrow> string" where
  "toLowerCase s = map lowerChar s"

definition toUpperCase :: "string \<Rightarrow> string" where
  "toUpperCase s = map upperChar s"

text \<open>\<open>s.split(c)\<close> for a one-character separator: every occurrence separates, so that
  two separators in a row give an empty piece, and the empty string gives one empty piece.\<close>

fun splitOn :: "char \<Rightarrow> string \<Rightarrow> string list" where
  "splitOn c [] = [[]]"
| "splitOn c (x # xs) =
     (if x = c then [] # splitOn c xs
      else (case splitOn c xs of
              [] \<Rightarrow> [[x]]
            | w # ws \<Rightarrow> (x # w) # ws))"

text \<open>Reading an array at an index: \<open>undefined\<close> outside the array.\<close>

definition elemAt :: "'a list \<Rightarrow> nat \<Rightarrow> 'a option" where
  "elemAt xs i = (if i < length xs then Some (xs ! i) else None)"

text \<open>What a \<open>catch\<close> clause receives: an \<open>Error\<close> with its message, or any other value.\<close>

datatype thrown = ErrorObject (name: string) (message: string) | OtherThrown

section \<open>Cron authentication (libs/cron-auth.ts)\<close>

text \<open>The parts of a request that the scheduler entry point reads.\<close>

record request =
  xCronSecret :: "string option"
  authorization :: "string option"
  limitParam :: "string option"

definition getBearerToken :: "string option \<Rightarrow> string option" where
  "getBearerToken authorizationHeader =
     (case authorizationHeader of
        None \<Rightarrow> None
      | Some h \<Rightarrow>
          if h = [] then None
          else
            (let parts = splitOn CHR '' '' h;
                 scheme = elemAt parts 0;
                 token = elemAt parts 1
             in case token of
                  None \<Rightarrow> None
                | Some t \<Rightarrow>
                    if map_option toLowerCase scheme \<noteq> Some ''bearer'' \<or> t = [] then None
                    else Some (trim t)))"

text \<open>\<open>cronSecret\<close> is \<open>process.env.CRON_SECRET\<close>: \<open>None\<close> when the variable is unset.\<close>

definition isCronAuthorized :: "string option \<Rightarrow> request \<Rightarrow> bool" where
  "isCronAuthorized cronSecret req =
     (case map_option trim cronSecret of
        None \<Rightarrow> False
      | Some expectedSecret \<Rightarrow>
          if expectedSecret = [] then False
          else
            (let headerSecret = map_option trim (xCronSecret req);
                 bearerSecret = getBearerToken (authorization req)
             in headerSecret = Some expectedSecret \<or> bearerSecret = Some expectedSecret))"

section \<open>The crawl scheduler entry point (app/api/cron/crawl/route.ts)\<close>

datatype 'r cron_body =
    ErrorBody string
  | SkippedBody (retryAfterSeconds: int) (lockUntilIso: string)
  | ResultBody 'r

record 'b response =
  status :: nat
  body :: 'b

definition requireCronAuth :: "string option \<Rightarrow> request \<Rightarrow> 'r cron_body response option" where
  "requireCronAuth cronSecret req =
     (if \<not> isCronAuthorized cronSecret req
      then Some \<lparr>status = 401, body = ErrorBody ''Unauthorized''\<rparr>
      else None)"

text \<open>\<open>Number.parseInt(raw, 10)\<close>: leading white space, an optional sign, then the longest
  run of decimal digits; \<open>NaN\<close> (here \<open>None\<close>) when there is no digit.\<close>

definition digitVal :: "char \<Rightarrow> nat" where
  "digitVal c = of_char c - (48::nat)"

definition digitsToNat :: "string \<Rightarrow> nat" where
  "digitsToNat ds = foldl (\<lambda>acc c. 10 * acc + digitVal c) 0 ds"

definition parseIntDec :: "string \<Rightarrow> int option" where
  "parseIntDec raw =
     (let s = dropWhile isSpace raw;
          neg = (case s of c # _ \<Rightarrow> c = CHR ''-'' | [] \<Rightarrow> False);
          signed = (case s of c # _ \<Rightarrow> c = CHR ''-'' \<or> c = CHR ''+'' | [] \<Rightarrow> False);
          ds = takeWhile isDigit (if signed then tl s else s)
      in if ds = [] then None
         else Some (if neg then - int (digitsToNat ds) else int (digitsToNat ds)))"

definition DEFAULT_CRAWL_BATCH_LIMIT :: int where
  "DEFAULT_CRAWL_BATCH_LIMIT = 3"

definition MAX_CRAWL_BATCH_LIMIT :: int where
  "MAX_CRAWL_BATCH_LIMIT = 20"

text \<open>\<open>crawlBatchLimit\<close> is the constant \<open>CRAWL_BATCH_LIMIT\<close>, read from the environment
  when the module is loaded.\<close>

definition parseLimit :: "int \<Rightarrow> string option \<Rightarrow> int" where
  "parseLimit crawlBatchLimit raw =
     (let fallback = (if crawlBatchLimit \<noteq> 0 then crawlBatchLimit else DEFAULT_CRAWL_BATCH_LIMIT)
      in case raw of
           None \<Rightarrow> fallback
         | Some r \<Rightarrow>
             if r = [] then fallback
             else (case parseIntDec r of
                     None \<Rightarrow> fallback
                   | Some parsed \<Rightarrow>
                       if parsed \<le> 0 then fallback else min parsed MAX_CRAWL_BATCH_LIMIT))"

record lock_result =
  acquired :: bool
  ownerId :: string
  lockUntil :: string
  retryAfter :: int

text \<open>
  The collaborators of the handler: connecting to the store, acquiring and releasing the
  invocation lock, and running the batch. Each may throw. The handler returns its response
  together with the calls it made, in order.
\<close>

record 'r cron_world =
  connectMongo :: "thrown + unit"
  acquireCronLock :: "thrown + lock_result"
  runCrawlBatch :: "int \<Rightarrow> thrown + 'r"
  releaseCronLock :: "thrown + unit"

datatype cron_call = ConnectCall | AcquireCall | RunBatchCall int | ReleaseCall string

definition failureResponse :: "thrown \<Rightarrow> 'r cron_body response" where
  "failureResponse e =
     \<lparr>status = 500,
      body = ErrorBody (case e of ErrorObject _ m \<Rightarrow> m | OtherThrown \<Rightarrow> ''Failed to run crawl batch'')\<rparr>"

definition handle ::
  "string option \<Rightarrow> int \<Rightarrow> 'r cron_world \<Rightarrow> request \<Rightarrow> 'r cron_body response \<times> cron_call list" where
  "handle cronSecret crawlBatchLimit world req =
     (case requireCronAuth cronSecret req of
        Some unauthorizedResponse \<Rightarrow> (unauthorizedResponse, [])
      | None \<Rightarrow>
          (case connectMongo world of
             Inl e \<Rightarrow> (failureResponse e, [ConnectCall])
           | Inr _ \<Rightarrow>
               (case acquireCronLock world of
                  Inl e \<Rightarrow> (failureResponse e, [ConnectCall, AcquireCall])
                | Inr lock \<Rightarrow>
                    if \<not> acquired lock
                    then (\<lparr>status = 202,
                           body = SkippedBody (retryAfter lock) (lockUntil lock)\<rparr>,
                          [ConnectCall, AcquireCall])
                    else
                      (let limit = parseLimit crawlBatchLimit (limitParam req);
                           calls = [ConnectCall, AcquireCall, RunBatchCall limit,
                                    ReleaseCall (ownerId lock)]
                       in case runCrawlBatch world limit of
                            Inl e \<Rightarrow>
                              (case releaseCronLock world of
                                 Inl e' \<Rightarrow> (failureResponse e', calls)
                               | Inr _ \<Rightarrow> (failureResponse e, calls))
                          | Inr result \<Rightarrow>
                              (case releaseCronLock world of
                                 Inl e' \<Rightarrow> (failureResponse e', calls)
                               | Inr _ \<Rightarrow> (\<lparr>status = 200, body = ResultBody result\<rparr>, calls))))))"

text \<open>The route exports \<open>GET\<close> and \<open>POST\<close>; both are \<open>handle\<close>.\<close>

definition GET_cron :: "string option \<Rightarrow> int \<Rightarrow> 'r cron_world \<Rightarrow> request \<Rightarrow> 'r cron_body response \<times> cron_call list" where
  "GET_cron = handle"

definition POST_cron :: "string option \<Rightarrow> int \<Rightarrow> 'r cron_world \<Rightarrow> request \<Rightarrow> 'r cron_body response \<times> cron_call list" where
  "POST_cron = handle"

section \<open>The company record (models/Company.ts)\<close>

type_synonym object_id = nat

datatype company_type = Self | Competitor

datatype crawl_status = Idle | Ok | Blocked | ManualNeeded | Error

text \<open>The list of pricing URL candidates is carried through unchanged by everything
  modelled here, so its type is a parameter.\<close>

record 'c company =
  companyId :: object_id
  userId :: object_id
  companyType :: company_type
  domain :: string
  homepageUrl :: "string option"
  primaryPricingUrl :: "string option"
  pricingUrlCandidates :: 'c
  nextCrawlAt :: "int option"
  crawlLeaseUntil :: "int option"
  lastCrawlAt :: "int option"
  lastCrawlStatus :: crawl_status
  lastCrawlError :: "string option"
  latestContentHash :: "string option"
  latestConfidence :: "rat option"

section \<open>The interactive crawl triggers (crawl-now and retry-crawl routes)\<close>

datatype lease_state = LeaseActive | LeaseStaleOrExpired | LeaseNone

datatype trigger_body =
    TriggerError string
  | TriggerRateLimited string int
  | TriggerLeaseConflict string lease_state "int option"
  | Scheduled (scheduledCompany: object_id) (scheduledFlag: bool)
      (scheduledNextCrawlAt: "int option") (scheduledLeaseUntil: "int option")
      (scheduledLeaseState: lease_state) (scheduledLeaseCleared: bool)
  | Retried (retriedCompany: object_id) (retriedFlag: bool) (retriedStatus: crawl_status)
      (retriedError: "string option") (retriedNextCrawlAt: "int option")
      (retriedLeaseUntil: "int option") (retriedLeaseState: lease_state)
      (retriedLeaseCleared: bool)

record rate_limit_result =
  allowed :: bool
  retryAfterSeconds :: int

text \<open>
  What a trigger request meets: the session's user id, whether the \<open>companyId\<close> of the path
  is a valid object id, the store connection, the write-rate limiter, the company found for
  this user and id, the clock, and the outcome of \<open>company.save()\<close>.
\<close>

record 'c trigger_world =
  sessionUserId :: "string option"
  companyIdValid :: bool
  connectStore :: "thrown + unit"
  enforceWriteRateLimit :: "thrown + rate_limit_result"
  findCompany :: "thrown + 'c company option"
  clock :: int
  saveCompany :: "thrown + unit"

text \<open>A handler returns its response and, when \<open>save\<close> succeeded, the company as stored.\<close>

definition triggerPrelude ::
  "string \<Rightarrow> string \<Rightarrow> string \<Rightarrow> 'c trigger_world \<Rightarrow>
   ('c company \<Rightarrow> trigger_body response \<times> 'c company option) \<Rightarrow>
   trigger_body response \<times> 'c company option" where
  "triggerPrelude tooMany onlyCompetitor failed w continue =
     (case sessionUserId w of
        None \<Rightarrow> (\<lparr>status = 401, body = TriggerError ''Not signed in''\<rparr>, None)
      | Some uid \<Rightarrow>
          if uid = [] then (\<lparr>status = 401, body = TriggerError ''Not signed in''\<rparr>, None)
          else if \<not> companyIdValid w
          then (\<lparr>status = 400, body = TriggerError ''Invalid companyId''\<rparr>, None)
          else
            (case connectStore w of
               Inl _ \<Rightarrow> (\<lparr>status = 500, body = TriggerError failed\<rparr>, None)
             | Inr _ \<Rightarrow>
                 (case enforceWriteRateLimit w of
                    Inl _ \<Rightarrow> (\<lparr>status = 500, body = TriggerError failed\<rparr>, None)
                  | Inr rateLimit \<Rightarrow>
                      if \<not> allowed rateLimit
                      then (\<lparr>status = 429,
                             body = TriggerRateLimited tooMany (retryAfterSeconds rateLimit)\<rparr>,
                            None)
                      else
                        (case findCompany w of
                           Inl _ \<Rightarrow> (\<lparr>status = 500, body = TriggerError failed\<rparr>, None)
                         | Inr None \<Rightarrow>
                             (\<lparr>status = 404, body = TriggerError ''Company not found''\<rparr>, None)
                         | Inr (Some company) \<Rightarrow>
                             if companyType company \<noteq> Competitor
                             then (\<lparr>status = 400, body = TriggerError onlyCompetitor\<rparr>, None)
                             else continue company))))"

text \<open>The \<open>crawl-now\<close> handler.\<close>

definition POST_crawl_now :: "'c trigger_world \<Rightarrow> trigger_body response \<times> 'c company option" where
  "POST_crawl_now w =
     triggerPrelude ''Too many crawl-now requests''
       ''crawl-now is only available for competitor companies'' ''Failed to schedule crawl'' w
       (\<lambda>company.
          let now = clock w;
              leaseUntil = crawlLeaseUntil company;
              hasLease = (leaseUntil \<noteq> None);
              leaseIsActive = (case leaseUntil of None \<Rightarrow> False | Some l \<Rightarrow> l > now);
              shouldClearLease = (hasLease \<and> \<not> leaseIsActive);
              company1 = company\<lparr>nextCrawlAt := Some now\<rparr>;
              company2 = (if shouldClearLease then company1\<lparr>crawlLeaseUntil := None\<rparr>
                          else company1)
          in case saveCompany w of
               Inl _ \<Rightarrow> (\<lparr>status = 500, body = TriggerError ''Failed to schedule crawl''\<rparr>, None)
             | Inr _ \<Rightarrow>
                 (\<lparr>status = 200,
                   body = Scheduled (companyId company2) True (nextCrawlAt company2)
                            (crawlLeaseUntil company2)
                            (if leaseIsActive then LeaseActive
                             else if hasLease then LeaseStaleOrExpired else LeaseNone)
                            shouldClearLease\<rparr>,
                  Some company2))"

text \<open>The \<open>retry-crawl\<close> handler, the sibling of \<open>crawl-now\<close> in the same file.\<close>

definition POST_retry_crawl :: "'c trigger_world \<Rightarrow> trigger_body response \<times> 'c company option" where
  "POST_retry_crawl w =
     triggerPrelude ''Too many retry-crawl requests''
       ''retry-crawl is only available for competitor companies'' ''Failed to retry crawl'' w
       (\<lambda>company.
          let now = clock w;
              leaseUntil = crawlLeaseUntil company;
              hasLease = (leaseUntil \<noteq> None);
              leaseIsActive = (case leaseUntil of None \<Rightarrow> False | Some l \<Rightarrow> l > now)
          in if leaseIsActive
             then (\<lparr>status = 409,
                    body = TriggerLeaseConflict ''Cannot retry while a crawl lease is active''
                             LeaseActive leaseUntil\<rparr>,
                   None)
             else
               (let company1 = company\<lparr>lastCrawlError := None, lastCrawlStatus := Idle,
                                       nextCrawlAt := Some now\<rparr>;
                    company2 = (if hasLease then company1\<lparr>crawlLeaseUntil := None\<rparr>
                                else company1)
                in case saveCompany w of
                     Inl _ \<Rightarrow> (\<lparr>status = 500, body = TriggerError ''Failed to retry crawl''\<rparr>, None)
                   | Inr _ \<Rightarrow>
                       (\<lparr>status = 200,
                         body = Retried (companyId company2) True (lastCrawlStatus company2)
                                  (lastCrawlError company2) (nextCrawlAt company2)
                                  (crawlLeaseUntil company2)
                                  (if hasLease then LeaseStaleOrExpired else LeaseNone)
                                  hasLease\<rparr>,
                        Some company2)))"

text \<open>What the specification calls a request "reported as conflicting": the HTTP status
  409 of its error taxonomy.\<close>

definition reportedAsConflicting :: "'b response \<Rightarrow> bool" where
  "reportedAsConflicting r \<longleftrightarrow> status r = 409"

text \<open>A request that reaches the lease logic: signed in, a valid id, within the rate limit,
  the company found and a competitor, and the save succeeding.\<close>

definition reachesLease :: "'c trigger_world \<Rightarrow> 'c company \<Rightarrow> bool" where
  "reachesLease w company \<longleftrightarrow>
     (case sessionUserId w of None \<Rightarrow> False | Some uid \<Rightarrow> uid \<noteq> []) \<and>
     companyIdValid w \<and>
     connectStore w = Inr () \<and>
     (case enforceWriteRateLimit w of Inl _ \<Rightarrow> False | Inr r \<Rightarrow> allowed r) \<and>
     findCompany w = Inr (Some company) \<and>
     companyType company = Competitor \<and>
     saveCompany w = Inr ()"

section \<open>The static fetch and its failure classes (libs/crawler/extract.ts)\<close>

text \<open>A number in a template string: its decimal digits.\<close>

fun showNat :: "nat \<Rightarrow> string" where
  "showNat n =
     (if n < 10 then [char_of (48 + n)]
      else showNat (n div 10) @ [char_of (48 + n mod 10)])"

text \<open>
  What \<open>fetch\<close> does with the abort timer running: it throws (an \<open>AbortError\<close> when the timer
  fired), or it answers with a status and headers, and reading the body either yields its
  text or throws in turn.
\<close>

datatype fetch_outcome =
    FetchThrew thrown
  | Responded (respStatus: nat) (respContentType: "string option") (respText: "thrown + string")

declare showNat.simps [simp del]

definition timedOut :: thrown where
  "timedOut = ErrorObject ''AbortError'' ''This operation was aborted''"

datatype static_fetch_result =
    StaticFetchSuccess (fetchedStatus: nat) (html: string) (contentType: "string option")
  | StaticFetchFailure (failedStatus: nat) (failedError: string)

definition fetchCatch :: "thrown \<Rightarrow> static_fetch_result" where
  "fetchCatch e =
     (case e of
        ErrorObject n m \<Rightarrow>
          if n = ''AbortError'' then StaticFetchFailure 408 ''Request timed out''
          else StaticFetchFailure 500 m
      | OtherThrown \<Rightarrow> StaticFetchFailure 500 ''Unknown fetch error'')"

text \<open>\<open>maxHtmlLength\<close> is the constant \<open>MAX_HTML_LENGTH\<close>.\<close>

definition fetchStaticHtml :: "nat \<Rightarrow> fetch_outcome \<Rightarrow> static_fetch_result" where
  "fetchStaticHtml maxHtmlLength outcome =
     (case outcome of
        FetchThrew e \<Rightarrow> fetchCatch e
      | Responded st ct text \<Rightarrow>
          if \<not> (200 \<le> st \<and> st \<le> 299) then StaticFetchFailure st (''HTTP '' @ showNat st)
          else (case text of
                  Inl e \<Rightarrow> fetchCatch e
                | Inr t \<Rightarrow> StaticFetchSuccess st (take maxHtmlLength t) ct))"

datatype capture_method = Static | Playwright | Llm | Manual

datatype failure_status = FailBlocked | FailManualNeeded | FailError

record crawl_extraction_failure =
  failStatus :: failure_status
  failError :: string
  failConfidence :: rat
  failIsVerified :: bool
  failCaptureMethod :: capture_method

definition BLOCKED_HTTP_STATUSES :: "nat list" where
  "BLOCKED_HTTP_STATUSES = [401, 403, 429]"

definition failure :: "failure_status \<Rightarrow> string \<Rightarrow> crawl_extraction_failure" where
  "failure st err =
     \<lparr>failStatus = st, failError = err, failConfidence = 0, failIsVerified = False,
      failCaptureMethod = Static\<rparr>"

text \<open>The argument is a \<open>StaticFetchFailure\<close>: its status and its error.\<close>

definition classifyFetchFailure :: "nat \<Rightarrow> string \<Rightarrow> crawl_extraction_failure" where
  "classifyFetchFailure st err =
     (if st \<in> set BLOCKED_HTTP_STATUSES then failure FailBlocked err
      else if 400 \<le> st \<and> st < 500 then failure FailManualNeeded err
      else failure FailError err)"

text \<open>The extractor up to the end of its transport stage: \<open>None\<close> when the fetch succeeded
  and the page goes on to be analysed.\<close>

definition transportStage :: "nat \<Rightarrow> fetch_outcome \<Rightarrow> crawl_extraction_failure option" where
  "transportStage maxHtmlLength outcome =
     (case fetchStaticHtml maxHtmlLength outcome of
        StaticFetchFailure st err \<Rightarrow> Some (classifyFetchFailure st err)
      | StaticFetchSuccess _ _ _ \<Rightarrow> None)"

section \<open>Pricing payloads (libs/crawler/normalize.ts)\<close>

datatype price_period = Day | Week | Month | Year | OneTime | Unknown

fun periodString :: "price_period \<Rightarrow> string" where
  "periodString Day = ''day''"
| "periodString Week = ''week''"
| "periodString Month = ''month''"
| "periodString Year = ''year''"
| "periodString OneTime = ''one_time''"
| "periodString Unknown = ''unknown''"

record price_point =
  amount :: rat
  currency :: string
  period :: price_period

record pricing_payload =
  sourceUrl :: string
  pageTitle :: "string option"
  pageDescription :: "string option"
  planNames :: "string list"
  priceMentions :: "price_point list"
  customPricingHints :: "string list"

text \<open>\<open>Number(x.toFixed(2))\<close>: the nearest multiple of one hundredth, a tie going away from
  zero.\<close>

definition toFixed2 :: "rat \<Rightarrow> rat" where
  "toFixed2 x =
     (if x < 0 then - (of_int \<lfloor>- x * 100 + 1 / 2\<rfloor> / 100)
      else of_int \<lfloor>x * 100 + 1 / 2\<rfloor> / 100)"

text \<open>
  \<open>localeCompare\<close> is the collation of the runtime, which the source does not define: the
  functions that sort strings take it as a parameter. \<open>Array.prototype.sort\<close> is stable; it
  is modelled by insertion from the right, an element going before the first one that the
  comparator does not place before it.
\<close>

type_synonym collation = "string \<Rightarrow> string \<Rightarrow> int"

fun insertBy :: "('a \<Rightarrow> 'a \<Rightarrow> int) \<Rightarrow> 'a \<Rightarrow> 'a list \<Rightarrow> 'a list" where
  "insertBy cmp x [] = [x]"
| "insertBy cmp x (y # ys) = (if cmp x y \<le> 0 then x # y # ys else y # insertBy cmp x ys)"

definition sortBy :: "('a \<Rightarrow> 'a \<Rightarrow> int) \<Rightarrow> 'a list \<Rightarrow> 'a list" where
  "sortBy cmp xs = foldr (insertBy cmp) xs []"

text \<open>The sign of a difference of numbers, which is all that \<open>sort\<close> reads of it.\<close>

definition signOf :: "rat \<Rightarrow> int" where
  "signOf d = (if d < 0 then - 1 else if d = 0 then 0 else 1)"

text \<open>A \<open>Set\<close> or the keys of a \<open>Map\<close> iterate in the order of first insertion.\<close>

fun insertionOrder :: "'a list \<Rightarrow> 'a list \<Rightarrow> 'a list" where
  "insertionOrder seen [] = seen"
| "insertionOrder seen (x # xs) =
     (if x \<in> set seen then insertionOrder seen xs else insertionOrder (seen @ [x]) xs)"

definition toSet :: "'a list \<Rightarrow> 'a list" where
  "toSet xs = insertionOrder [] xs"

text \<open>\<open>map.get(key)\<close> and \<open>map.set(key, value)\<close> on a \<open>Map\<close> held as the list of its entries
  in insertion order: setting an existing key keeps its place.\<close>

fun mapGet :: "('k \<times> 'v) list \<Rightarrow> 'k \<Rightarrow> 'v option" where
  "mapGet [] k = None"
| "mapGet ((k', v) # m) k = (if k' = k then Some v else mapGet m k)"

fun mapSet :: "'k \<Rightarrow> 'v \<Rightarrow> ('k \<times> 'v) list \<Rightarrow> ('k \<times> 'v) list" where
  "mapSet k v [] = [(k, v)]"
| "mapSet k v ((k', v') # m) = (if k' = k then (k, v) # m else (k', v') # mapSet k v m)"

section \<open>The diff engine (libs/crawler/diff.ts)\<close>

datatype severity = Low | Medium | High

datatype verification_state = Verified | Unverified

record updated_amount =
  previousAmount :: rat
  currentAmount :: rat
  deltaPercent :: rat

text \<open>The period of a bucket change is the second piece of the bucket key, cast without a
  check: it is a string, and \<open>undefined\<close> if the key had no separator.\<close>

record price_bucket_change =
  bucketCurrency :: string
  bucketPeriod :: "string option"
  addedAmounts :: "rat list"
  removedAmounts :: "rat list"
  updatedAmounts :: "updated_amount list"

definition PERIOD_ORDER :: "string \<Rightarrow> int option" where
  "PERIOD_ORDER p =
     (if p = ''day'' then Some 1
      else if p = ''week'' then Some 2
      else if p = ''month'' then Some 3
      else if p = ''year'' then Some 4
      else if p = ''one_time'' then Some 5
      else if p = ''unknown'' then Some 6
      else None)"

definition toBucketMap :: "pricing_payload \<Rightarrow> (string \<times> rat list) list" where
  "toBucketMap payload =
     fold (\<lambda>price buckets.
             let key = toUpperCase (currency price) @ ''|'' @ periodString (period price);
                 next = (case mapGet buckets key of None \<Rightarrow> [] | Some amounts \<Rightarrow> amounts)
             in mapSet key (sort (next @ [toFixed2 (amount price)])) buckets)
          (priceMentions payload) []"

definition toCustomHintSet :: "pricing_payload \<Rightarrow> string list" where
  "toCustomHintSet payload = toSet (customPricingHints payload)"

text \<open>One turn of the loop of \<open>createBucketChange\<close>, on the three arrays it fills.\<close>

definition bucketStep ::
  "rat list \<Rightarrow> rat list \<Rightarrow> nat \<Rightarrow> rat list \<times> rat list \<times> updated_amount list \<Rightarrow>
   rat list \<times> rat list \<times> updated_amount list" where
  "bucketStep previousAmounts currentAmounts index acc =
     (case acc of (added, removed, updated) \<Rightarrow>
        (case (elemAt previousAmounts index, elemAt currentAmounts index) of
           (Some pAmt, Some cAmt) \<Rightarrow>
             (let absoluteDelta = \<bar>cAmt - pAmt\<bar>;
                  percent = (if pAmt > 0 then absoluteDelta / pAmt * 100 else 100)
              in if absoluteDelta \<ge> 1 / 2 \<and> percent \<ge> 1
                 then (added, removed,
                       updated @ [\<lparr>previousAmount = pAmt, currentAmount = cAmt,
                                    deltaPercent = toFixed2 percent\<rparr>])
                 else (added, removed, updated))
         | (Some pAmt, None) \<Rightarrow> (added, removed @ [pAmt], updated)
         | (None, Some cAmt) \<Rightarrow> (added @ [cAmt], removed, updated)
         | (None, None) \<Rightarrow> (added, removed, updated)))"

definition bucketLoop ::
  "rat list \<Rightarrow> rat list \<Rightarrow> rat list \<times> rat list \<times> updated_amount list" where
  "bucketLoop previousAmounts currentAmounts =
     fold (bucketStep previousAmounts currentAmounts)
       [0 ..< max (length previousAmounts) (length currentAmounts)] ([], [], [])"

definition createBucketChange ::
  "string \<Rightarrow> rat list \<Rightarrow> rat list \<Rightarrow> price_bucket_change option" where
  "createBucketChange key previousAmounts currentAmounts =
     (let pieces = splitOn CHR ''|'' key;
          currencyPiece = (case elemAt pieces 0 of None \<Rightarrow> [] | Some c \<Rightarrow> c);
          periodRaw = elemAt pieces 1
      in case bucketLoop previousAmounts currentAmounts of
           (added, removed, updated) \<Rightarrow>
             if added = [] \<and> removed = [] \<and> updated = [] then None
             else Some \<lparr>bucketCurrency = currencyPiece, bucketPeriod = periodRaw,
                        addedAmounts = added, removedAmounts = removed,
                        updatedAmounts = updated\<rparr>)"

definition determineSeverity :: "price_bucket_change list \<Rightarrow> bool \<Rightarrow> severity" where
  "determineSeverity changes customHintChanged =
     (let totalUpdates = foldl (\<lambda>sum change. sum + length (updatedAmounts change)) 0 changes;
          totalAdded = foldl (\<lambda>sum change. sum + length (addedAmounts change)) 0 changes;
          totalRemoved = foldl (\<lambda>sum change. sum + length (removedAmounts change)) 0 changes;
          maxDeltaPercent =
            foldl (\<lambda>maxDelta change.
                     max maxDelta
                       (foldl (\<lambda>innerMax update. max innerMax (deltaPercent update)) 0
                          (updatedAmounts change)))
              0 changes
      in if maxDeltaPercent \<ge> 20 \<or> (totalAdded \<ge> 2 \<and> totalRemoved \<ge> 2) then High
         else if maxDeltaPercent \<ge> 10 \<or> totalUpdates + totalAdded + totalRemoved \<ge> 2
                 \<or> customHintChanged then Medium
         else Low)"

text \<open>The comparator of \<open>sortBucketChanges\<close>. A period outside \<open>PERIOD_ORDER\<close> makes the
  difference \<open>NaN\<close>, which \<open>sort\<close> reads as zero.\<close>

definition compareBucketChanges ::
  "collation \<Rightarrow> price_bucket_change \<Rightarrow> price_bucket_change \<Rightarrow> int" where
  "compareBucketChanges localeCompare a b =
     (if bucketCurrency a \<noteq> bucketCurrency b
      then localeCompare (bucketCurrency a) (bucketCurrency b)
      else if bucketPeriod a \<noteq> bucketPeriod b
      then (case (Option.bind (bucketPeriod a) PERIOD_ORDER,
                  Option.bind (bucketPeriod b) PERIOD_ORDER) of
              (Some x, Some y) \<Rightarrow> x - y
            | _ \<Rightarrow> 0)
      else 0)"

definition sortBucketChanges ::
  "collation \<Rightarrow> price_bucket_change list \<Rightarrow> price_bucket_change list" where
  "sortBucketChanges localeCompare changes = sortBy (compareBucketChanges localeCompare) changes"

record normalized_diff =
  priceChanges :: "price_bucket_change list"
  addedHints :: "string list"
  removedHints :: "string list"
  previousPriceCount :: nat
  currentPriceCount :: nat
  previousPlanCount :: nat
  currentPlanCount :: nat
  changedAt :: string

record pricing_diff_result =
  normalizedDiff :: normalized_diff
  diffSeverity :: severity
  diffVerificationState :: verification_state

text \<open>\<open>wallClock\<close> is \<open>new Date().toISOString()\<close> at the time of the call.\<close>

definition generatePricingDiff ::
  "collation \<Rightarrow> string \<Rightarrow> pricing_payload \<Rightarrow> pricing_payload \<Rightarrow> bool \<Rightarrow>
   pricing_diff_result option" where
  "generatePricingDiff localeCompare wallClock previousPayload currentPayload
     currentSnapshotVerified =
     (let previousBuckets = toBucketMap previousPayload;
          currentBuckets = toBucketMap currentPayload;
          allKeys = toSet (map fst previousBuckets @ map fst currentBuckets);
          bucketChanges =
            List.map_filter
              (\<lambda>key. createBucketChange key
                        (case mapGet previousBuckets key of None \<Rightarrow> [] | Some a \<Rightarrow> a)
                        (case mapGet currentBuckets key of None \<Rightarrow> [] | Some a \<Rightarrow> a))
              allKeys;
          previousHints = toCustomHintSet previousPayload;
          currentHints = toCustomHintSet currentPayload;
          added = filter (\<lambda>hint. hint \<notin> set previousHints) currentHints;
          removed = filter (\<lambda>hint. hint \<notin> set currentHints) previousHints;
          customHintChanged = (length added > 0 \<or> length removed > 0)
      in if bucketChanges = [] \<and> \<not> customHintChanged then None
         else
           (let sortedChanges = sortBucketChanges localeCompare bucketChanges;
                assigned = determineSeverity sortedChanges customHintChanged
            in Some \<lparr>normalizedDiff =
                       \<lparr>priceChanges = sortedChanges,
                        addedHints = added,
                        removedHints = removed,
                        previousPriceCount = length (priceMentions previousPayload),
                        currentPriceCount = length (priceMentions currentPayload),
                        previousPlanCount = length (planNames previousPayload),
                        currentPlanCount = length (planNames currentPayload),
                        changedAt = wallClock\<rparr>,
                      diffSeverity = assigned,
                      diffVerificationState =
                        (if currentSnapshotVerified then Verified else Unverified)\<rparr>))"

subsection \<open>The thresholds in the specification's words\<close>









subsection \<open>The loop of \<open>createBucketChange\<close>, turn by turn\<close>




section \<open>A collation for examples\<close>

text \<open>Where an example needs a collation, strings are compared by the codes of their
  characters.\<close>

fun codeUnitCompare :: collation where
  "codeUnitCompare [] [] = 0"
| "codeUnitCompare [] (y # ys) = - 1"
| "codeUnitCompare (x # xs) [] = 1"
| "codeUnitCompare (x # xs) (y # ys) =
     (if (of_char x :: nat) < of_char y then - 1
      else if (of_char y :: nat) < of_char x then 1
      else codeUnitCompare xs ys)"

section \<open>The canonicalizer (libs/crawler/normalize.ts)\<close>

text \<open>\<open>value.replace(/\s+/g, " ")\<close>: every run of white space becomes one space. The flag
  says whether the character before was white space.\<close>

fun collapseSpaces :: "bool \<Rightarrow> string \<Rightarrow> string" where
  "collapseSpaces inRun [] = []"
| "collapseSpaces inRun (c # cs) =
     (if isSpace c
      then (if inRun then collapseSpaces True cs else CHR '' '' # collapseSpaces True cs)
      else c # collapseSpaces False cs)"

definition normalizeWhitespace :: "string \<Rightarrow> string" where
  "normalizeWhitespace v = trim (collapseSpaces False v)"

definition uniqueStrings :: "collation \<Rightarrow> string list \<Rightarrow> string list" where
  "uniqueStrings localeCompare items =
     sortBy localeCompare
       (filter (\<lambda>item. length item > 0)
          (toSet (map (\<lambda>item. toLowerCase (normalizeWhitespace item)) items)))"

text \<open>
  The key of a price in \<open>uniquePrices\<close> is the string
  \<open>`${price.currency}|${price.period}|${roundedAmount.toFixed(2)}`\<close>. A period and a
  formatted amount hold no separator, so two keys are equal exactly when the three parts
  are: the key is modelled as the triple. The currency enters the key as it was given; the
  stored price has it in upper case.
\<close>

definition priceKey :: "price_point \<Rightarrow> string \<times> price_period \<times> rat" where
  "priceKey price = (currency price, period price, toFixed2 (amount price))"

definition keyToPrice :: "price_point list \<Rightarrow> ((string \<times> price_period \<times> rat) \<times> price_point) list" where
  "keyToPrice prices =
     fold (\<lambda>price m.
             if mapGet m (priceKey price) = None
             then mapSet (priceKey price)
                    \<lparr>amount = toFixed2 (amount price),
                     currency = toUpperCase (currency price),
                     period = period price\<rparr> m
             else m)
          prices []"

definition comparePrices :: "collation \<Rightarrow> price_point \<Rightarrow> price_point \<Rightarrow> int" where
  "comparePrices localeCompare a b =
     (if currency a \<noteq> currency b then localeCompare (currency a) (currency b)
      else if period a \<noteq> period b
      then localeCompare (periodString (period a)) (periodString (period b))
      else signOf (amount a - amount b))"

definition uniquePrices :: "collation \<Rightarrow> price_point list \<Rightarrow> price_point list" where
  "uniquePrices localeCompare prices =
     sortBy (comparePrices localeCompare) (map snd (keyToPrice prices))"

text \<open>A title or description that is \<open>null\<close> or the empty string is falsy and becomes
  \<open>null\<close>.\<close>

definition canonicalText :: "string option \<Rightarrow> string option" where
  "canonicalText t =
     (case t of
        None \<Rightarrow> None
      | Some v \<Rightarrow> if v = [] then None else Some (normalizeWhitespace v))"

definition canonicalizePricingPayload :: "collation \<Rightarrow> pricing_payload \<Rightarrow> pricing_payload" where
  "canonicalizePricingPayload localeCompare payload =
     \<lparr>sourceUrl = sourceUrl payload,
      pageTitle = canonicalText (pageTitle payload),
      pageDescription = canonicalText (pageDescription payload),
      planNames = uniqueStrings localeCompare (planNames payload),
      priceMentions = uniquePrices localeCompare (priceMentions payload),
      customPricingHints = uniqueStrings localeCompare (customPricingHints payload)\<rparr>"

section \<open>The entitlements resolver (libs/entitlements.ts, types/entitlements.ts)\<close>

datatype plan_tier = Starter | Pro

datatype access_source = SourceNone | SourceTrial | SourcePaid

datatype access_state = Inactive | TrialActive | PaidActive

datatype trial_status = NotStarted | Active | Expired | Converted

datatype severity_gate = HighOnly | HighAndMedium

record plan_entitlement_rule =
  ruleCompetitorLimit :: nat
  ruleInsightSeverityGate :: severity_gate
  ruleCanReceiveWeeklyDigest :: bool

text \<open>
  The configuration module \<open>@/config\<close> is not part of the sources: the resolver takes it as
  a parameter, with the fields of \<open>EntitlementsConfig\<close> and the list of Stripe plans, each a
  price id and, possibly, a tier.
\<close>

record entitlements_config =
  trialDays :: nat
  trialPlanTier :: plan_tier
  paidFallbackPlanTier :: plan_tier
  plans :: "plan_tier \<Rightarrow> plan_entitlement_rule"
  severityGates :: "severity_gate \<Rightarrow> severity list"
  stripePlans :: "(string \<times> plan_tier option) list"

record entitlement_user =
  userObjectId :: object_id
  userHasAccess :: bool
  priceId :: "string option"
  trialStatus :: trial_status
  trialStartedAt :: "int option"
  trialEndsAt :: "int option"

record resolved_entitlements =
  hasAccess :: bool
  accessSource :: access_source
  accessState :: access_state
  planTier :: "plan_tier option"
  competitorLimit :: nat
  insightSeverityGate :: "severity_gate option"
  allowedInsightSeverities :: "severity list"
  canReceiveWeeklyDigestFlag :: bool
  entitledTrialDays :: nat

definition getPlanRule :: "entitlements_config \<Rightarrow> plan_tier \<Rightarrow> plan_entitlement_rule" where
  "getPlanRule config tier = plans config tier"

definition getAllowedInsightSeverities :: "entitlements_config \<Rightarrow> severity_gate \<Rightarrow> severity list" where
  "getAllowedInsightSeverities config gate = severityGates config gate"

definition resolvePlanTierFromPriceId :: "entitlements_config \<Rightarrow> string option \<Rightarrow> plan_tier option" where
  "resolvePlanTierFromPriceId config pid =
     (case pid of
        None \<Rightarrow> None
      | Some p \<Rightarrow>
          if p = [] then None
          else (case List.find (\<lambda>candidate. fst candidate = p) (stripePlans config) of
                  None \<Rightarrow> None
                | Some plan \<Rightarrow> snd plan))"

definition isTrialActive :: "entitlement_user \<Rightarrow> int \<Rightarrow> bool" where
  "isTrialActive user now =
     (if trialStatus user \<noteq> Active \<or> trialEndsAt user = None then False
      else (case trialEndsAt user of None \<Rightarrow> False | Some ends \<Rightarrow> ends > now))"

definition resolveEntitlements ::
  "entitlements_config \<Rightarrow> entitlement_user \<Rightarrow> int \<Rightarrow> resolved_entitlements" where
  "resolveEntitlements config user now =
     (if userHasAccess user then
        (let paidPlanTier = (case resolvePlanTierFromPriceId config (priceId user) of
                               None \<Rightarrow> paidFallbackPlanTier config
                             | Some tier \<Rightarrow> tier);
             paidPlanRule = getPlanRule config paidPlanTier
         in \<lparr>hasAccess = True, accessSource = SourcePaid, accessState = PaidActive,
             planTier = Some paidPlanTier,
             competitorLimit = ruleCompetitorLimit paidPlanRule,
             insightSeverityGate = Some (ruleInsightSeverityGate paidPlanRule),
             allowedInsightSeverities =
               getAllowedInsightSeverities config (ruleInsightSeverityGate paidPlanRule),
             canReceiveWeeklyDigestFlag = ruleCanReceiveWeeklyDigest paidPlanRule,
             entitledTrialDays = trialDays config\<rparr>)
      else if isTrialActive user now then
        (let trialTier = trialPlanTier config;
             trialPlanRule = getPlanRule config trialTier
         in \<lparr>hasAccess = True, accessSource = SourceTrial, accessState = TrialActive,
             planTier = Some trialTier,
             competitorLimit = ruleCompetitorLimit trialPlanRule,
             insightSeverityGate = Some (ruleInsightSeverityGate trialPlanRule),
             allowedInsightSeverities =
               getAllowedInsightSeverities config (ruleInsightSeverityGate trialPlanRule),
             canReceiveWeeklyDigestFlag = False,
             entitledTrialDays = trialDays config\<rparr>)
      else
        \<lparr>hasAccess = False, accessSource = SourceNone, accessState = Inactive,
         planTier = None, competitorLimit = 0, insightSeverityGate = None,
         allowedInsightSeverities = [], canReceiveWeeklyDigestFlag = False,
         entitledTrialDays = trialDays config\<rparr>)"

definition canGenerateInsight :: "resolved_entitlements \<Rightarrow> severity \<Rightarrow> bool" where
  "canGenerateInsight entitlements sev \<longleftrightarrow>
     hasAccess entitlements \<and> sev \<in> set (allowedInsightSeverities entitlements)"

section \<open>The insight builder (libs/crawler/insight.ts)\<close>

fun severityString :: "severity \<Rightarrow> string" where
  "severityString Low = ''low''"
| "severityString Medium = ''medium''"
| "severityString High = ''high''"

fun gateString :: "severity_gate \<Rightarrow> string" where
  "gateString HighOnly = ''high_only''"
| "gateString HighAndMedium = ''high_and_medium''"

record price_change_summary =
  summaryAdded :: nat
  summaryRemoved :: nat
  summaryUpdated :: nat

record insight_build_input =
  inputUser :: entitlement_user
  inputCompanyId :: object_id
  inputDiffId :: object_id
  inputSeverity :: severity
  inputVerificationState :: verification_state
  inputNormalizedDiff :: normalized_diff
  inputNow :: int

record recommendation =
  headline :: string
  summaryText :: string
  risk :: severity
  echoedSeverity :: severity
  echoedVerificationState :: verification_state
  actionItems :: "string list"
  diffSummary :: price_change_summary

datatype feedback_state = FeedbackNone | Helpful | NotHelpful

record insight_create_input =
  insightUserId :: object_id
  insightCompanyId :: object_id
  insightDiffId :: object_id
  model :: string
  promptTokens :: nat
  completionTokens :: nat
  totalCostUsd :: rat
  insightRecommendation :: recommendation
  severityGate :: severity_gate
  generatedAt :: int
  feedback :: feedback_state

record insight_build_result =
  shouldCreate :: bool
  reason :: "string option"
  createInput :: "insight_create_input option"

definition getPriceChangeSummary :: "normalized_diff \<Rightarrow> price_change_summary" where
  "getPriceChangeSummary nd =
     fold (\<lambda>entry s.
             \<lparr>summaryAdded = summaryAdded s + length (addedAmounts entry),
              summaryRemoved = summaryRemoved s + length (removedAmounts entry),
              summaryUpdated = summaryUpdated s + length (updatedAmounts entry)\<rparr>)
          (priceChanges nd)
          \<lparr>summaryAdded = 0, summaryRemoved = 0, summaryUpdated = 0\<rparr>"

definition createActionItems ::
  "severity \<Rightarrow> verification_state \<Rightarrow> price_change_summary \<Rightarrow> string list" where
  "createActionItems sev vstate summ =
     (let actions =
            (if sev = High
             then [''Review competitor positioning and update your pricing strategy within 24 hours.'']
             else [])
            @ (if summaryUpdated summ > 0
               then [''Compare changed price points against your plan tiers and conversion funnel performance.'']
               else [])
            @ (if summaryAdded summ > 0 \<or> summaryRemoved summ > 0
               then [''Audit your sales messaging for affected segments and adjust objection handling.'']
               else [])
            @ (if vstate = Unverified
               then [''Manually verify the competitor pricing page before acting on this change.'']
               else [])
      in if actions = []
         then [''Monitor this competitor for repeated movement before making pricing changes.'']
         else actions)"

definition getRiskLabel :: "severity \<Rightarrow> severity" where
  "getRiskLabel sev = (if sev = High then High else if sev = Medium then Medium else Low)"

definition buildInsightFromDiff ::
  "entitlements_config \<Rightarrow> insight_build_input \<Rightarrow> insight_build_result" where
  "buildInsightFromDiff config input =
     (let entitlements = resolveEntitlements config (inputUser input) (inputNow input)
      in case insightSeverityGate entitlements of
           None \<Rightarrow>
             \<lparr>shouldCreate = False,
              reason = Some ''No insight severity gate available for user'',
              createInput = None\<rparr>
         | Some gate \<Rightarrow>
             if \<not> canGenerateInsight entitlements (inputSeverity input)
             then \<lparr>shouldCreate = False,
                   reason = Some (''Severity '' @ severityString (inputSeverity input)
                                  @ '' not allowed for plan gate '' @ gateString gate),
                   createInput = None\<rparr>
             else
               (let summ = getPriceChangeSummary (inputNormalizedDiff input);
                    rec = \<lparr>headline = ''Competitor pricing moved (''
                                        @ severityString (inputSeverity input) @ '')'',
                            summaryText =
                              (if summaryUpdated summ > 0
                               then showNat (summaryUpdated summ) @ '' existing price points changed.''
                               else ''New pricing structure changes were detected.''),
                            risk = getRiskLabel (inputSeverity input),
                            echoedSeverity = inputSeverity input,
                            echoedVerificationState = inputVerificationState input,
                            actionItems = createActionItems (inputSeverity input)
                                            (inputVerificationState input) summ,
                            diffSummary = summ\<rparr>
                in \<lparr>shouldCreate = True,
                    reason = None,
                    createInput =
                      Some \<lparr>insightUserId = userObjectId (inputUser input),
                            insightCompanyId = inputCompanyId input,
                            insightDiffId = inputDiffId input,
                            model = ''rules-v1'',
                            promptTokens = 0,
                            completionTokens = 0,
                            totalCostUsd = 0,
                            insightRecommendation = rec,
                            severityGate = gate,
                            generatedAt = inputNow input,
                            feedback = FeedbackNone\<rparr>\<rparr>))"

section \<open>The batch runner, one company at a time (libs/crawler/runner.ts)\<close>

record crawl_extraction_success =
  contentHash :: string
  pricingPayload :: pricing_payload
  confidence :: rat
  isVerified :: bool
  captureMethod :: capture_method

datatype crawl_extraction_result =
    ExtractionOk crawl_extraction_success
  | ExtractionFailed crawl_extraction_failure

fun failureCrawlStatus :: "failure_status \<Rightarrow> crawl_status" where
  "failureCrawlStatus FailBlocked = Blocked"
| "failureCrawlStatus FailManualNeeded = ManualNeeded"
| "failureCrawlStatus FailError = Error"

text \<open>
  A stored snapshot's payload is untyped (\<open>Record<string, unknown>\<close>). What
  \<open>toNormalizedPayload\<close> reads of it: each string field if it is a string, the string
  entries of each array, and of each price entry the amount if it is (or converts to) a
  finite number, the currency and the period if they are strings.
\<close>

record raw_price_point =
  rawAmount :: "rat option"
  rawCurrency :: "string option"
  rawPeriod :: "string option"

record raw_payload =
  rawSourceUrl :: "string option"
  rawPageTitle :: "string option"
  rawPageDescription :: "string option"
  rawPlanNames :: "string list"
  rawCustomPricingHints :: "string list"
  rawPriceMentions :: "raw_price_point list"

definition isAllowedPeriod :: "string \<Rightarrow> price_period option" where
  "isAllowedPeriod p =
     List.find (\<lambda>allowedPeriod. periodString allowedPeriod = p)
       [Day, Week, Month, Year, OneTime, Unknown]"

definition toPricePoint :: "raw_price_point \<Rightarrow> price_point option" where
  "toPricePoint entry =
     (case (rawAmount entry, rawCurrency entry, rawPeriod entry) of
        (Some a, Some c, Some p) \<Rightarrow>
          if a \<le> 0 \<or> c = [] \<or> p = [] then None
          else (case isAllowedPeriod p of
                  None \<Rightarrow> None
                | Some allowedPeriod \<Rightarrow> Some \<lparr>amount = a, currency = c, period = allowedPeriod\<rparr>)
      | _ \<Rightarrow> None)"

definition toNormalizedPayload :: "collation \<Rightarrow> raw_payload option \<Rightarrow> pricing_payload option" where
  "toNormalizedPayload localeCompare payload =
     (case payload of
        None \<Rightarrow> None
      | Some raw \<Rightarrow>
          (case rawSourceUrl raw of
             None \<Rightarrow> None
           | Some url \<Rightarrow>
               if url = [] then None
               else Some (canonicalizePricingPayload localeCompare
                      \<lparr>sourceUrl = url,
                       pageTitle = rawPageTitle raw,
                       pageDescription = rawPageDescription raw,
                       planNames = rawPlanNames raw,
                       priceMentions = List.map_filter toPricePoint (rawPriceMentions raw),
                       customPricingHints = rawCustomPricingHints raw\<rparr>)))"

text \<open>The delays and lease of \<open>constants.ts\<close>, each read from the environment.\<close>

record crawl_constants =
  SUCCESS_CRAWL_DELAY_MS :: int
  ERROR_BACKOFF_MS :: int
  BLOCKED_BACKOFF_MS :: int
  MANUAL_NEEDED_BACKOFF_MS :: int

definition statusToNextDelayMs :: "crawl_constants \<Rightarrow> crawl_status \<Rightarrow> int" where
  "statusToNextDelayMs constants st =
     (if st = Blocked then BLOCKED_BACKOFF_MS constants
      else if st = ManualNeeded then MANUAL_NEEDED_BACKOFF_MS constants
      else if st = Error then ERROR_BACKOFF_MS constants
      else SUCCESS_CRAWL_DELAY_MS constants)"

definition truncateError :: "string \<Rightarrow> string" where
  "truncateError v = (if length v \<le> 400 then v else take 397 v @ ''...'')"

text \<open>A string that may be missing, read as a condition: \<open>null\<close>, \<open>undefined\<close> and the empty
  string are falsy.\<close>

definition truthy :: "string option \<Rightarrow> bool" where
  "truthy s = (case s of None \<Rightarrow> False | Some v \<Rightarrow> v \<noteq> [])"

record stored_snapshot =
  storedSnapshotId :: object_id
  storedPricingPayload :: "raw_payload option"

record snapshot_input =
  snapshotUserId :: object_id
  snapshotCompanyId :: object_id
  capturedAt :: int
  snapshotCaptureMethod :: capture_method
  snapshotConfidence :: rat
  snapshotContentHash :: string
  snapshotPricingPayload :: pricing_payload
  snapshotIsVerified :: bool

record diff_input =
  diffUserId :: object_id
  diffCompanyId :: object_id
  previousSnapshotId :: object_id
  currentSnapshotId :: object_id
  diffNormalizedDiff :: normalized_diff
  diffInputSeverity :: severity
  diffInputVerificationState :: verification_state
  detectedAt :: int

record 'c discovery_result =
  candidates :: 'c
  recommendedPrimaryUrl :: "string option"

text \<open>The \<open>$set\<close> and \<open>$unset\<close> of the final \<open>Company.updateOne\<close>; an optional field is \<open>None\<close>
  when the payload does not set it. \<open>crawlLeaseUntil\<close> is always set to \<open>null\<close>.\<close>

record 'c company_update =
  setCrawlLeaseUntilNull :: bool
  setNextCrawlAt :: int
  setLastCrawlAt :: int
  setLastCrawlStatus :: crawl_status
  setLatestContentHash :: "string option"
  setLatestConfidence :: "rat option"
  setPricingUrlCandidates :: "'c option"
  setPrimaryPricingUrl :: "string option"
  setLastCrawlError :: "string option"
  unsetLastCrawlError :: bool

datatype audit_event_type = CrawlBlocked | CrawlManualNeeded | CrawlError

text \<open>
  The collaborators of \<open>processCompany\<close>: discovery, the merge of candidates, the user and
  snapshot stores, the extractor, the three \<open>create\<close> calls, the final update, and the wall
  clock that the diff engine reads. Each call that is awaited may throw.
\<close>

record 'c crawl_world =
  discoverPricingUrlsFromHomepage :: "string \<Rightarrow> string \<Rightarrow> thrown + 'c discovery_result"
  mergePricingUrlCandidates :: "'c \<Rightarrow> 'c \<Rightarrow> 'c"
  findUserById :: "object_id \<Rightarrow> thrown + entitlement_user option"
  fetchAndExtractPricing :: "string \<Rightarrow> thrown + crawl_extraction_result"
  findLatestSnapshot :: "object_id \<Rightarrow> thrown + stored_snapshot option"
  createSnapshot :: "snapshot_input \<Rightarrow> thrown + object_id"
  createDiff :: "diff_input \<Rightarrow> thrown + object_id"
  createInsight :: "insight_create_input \<Rightarrow> thrown + unit"
  updateCompany :: "object_id \<Rightarrow> 'c company_update \<Rightarrow> thrown + unit"
  isoTimeNow :: string

text \<open>What a run did, in order: the extraction it obtained, the records it created, the
  update it sent and the audit event it logged.\<close>

datatype 'c crawl_event =
    Extracted string crawl_extraction_result
  | SnapshotCreated snapshot_input
  | DiffCreated diff_input
  | InsightCreated insight_create_input
  | CompanyUpdateSent "'c company_update"
  | AuditLogged audit_event_type crawl_status "string option" int

text \<open>The local variables of \<open>processCompany\<close>.\<close>

record 'c locals =
  finalStatus :: crawl_status
  finalErrorMessage :: "string option"
  localContentHash :: "string option"
  localConfidence :: "rat option"
  discoveredPrimaryPricingUrl :: "string option"
  discoveredCandidates :: "'c option"
  attemptedDiscovery :: bool
  changed :: bool
  snapshotCreated :: bool
  diffCreated :: bool
  insightCreated :: bool
  skippedByHash :: bool

record crawl_company_result =
  resultCompanyId :: object_id
  resultStatus :: crawl_status
  resultChanged :: bool
  resultSnapshotCreated :: bool
  resultDiffCreated :: bool
  resultInsightCreated :: bool
  resultSkippedByHash :: bool
  resultReason :: "string option"

definition initialLocals :: "'c locals" where
  "initialLocals =
     \<lparr>finalStatus = Error, finalErrorMessage = Some ''Crawler failed before execution'',
      localContentHash = None, localConfidence = None, discoveredPrimaryPricingUrl = None,
      discoveredCandidates = None, attemptedDiscovery = False, changed = False,
      snapshotCreated = False, diffCreated = False, insightCreated = False,
      skippedByHash = False\<rparr>"

text \<open>
  The \<open>try\<close> block ends in a \<open>return\<close>: the locals as they then are, the events so far, and
  whether the returned object has a \<open>reason\<close>. The block is written here as its consecutive
  parts, each taking the locals and events of the part before.
\<close>

type_synonym 'c attempt = "'c locals \<times> 'c crawl_event list \<times> bool"

definition returnFailure :: "crawl_status \<Rightarrow> string \<Rightarrow> 'c locals \<Rightarrow> 'c crawl_event list \<Rightarrow> 'c attempt" where
  "returnFailure st msg l ev = (l\<lparr>finalStatus := st, finalErrorMessage := Some msg\<rparr>, ev, True)"

definition returnOk :: "'c locals \<Rightarrow> 'c crawl_event list \<Rightarrow> 'c attempt" where
  "returnOk l ev = (l\<lparr>finalStatus := Ok, finalErrorMessage := None\<rparr>, ev, False)"

text \<open>The \<open>catch\<close> clause.\<close>

definition caught :: "thrown \<Rightarrow> 'c locals \<Rightarrow> 'c crawl_event list \<Rightarrow> 'c attempt" where
  "caught e l ev =
     returnFailure Error
       (case e of ErrorObject _ m \<Rightarrow> m | OtherThrown \<Rightarrow> ''Unexpected crawler error'') l ev"

definition insightPart ::
  "entitlements_config \<Rightarrow> 'c crawl_world \<Rightarrow> 'c company \<Rightarrow> int \<Rightarrow> entitlement_user \<Rightarrow>
   pricing_diff_result \<Rightarrow> object_id \<Rightarrow> 'c locals \<Rightarrow> 'c crawl_event list \<Rightarrow> 'c attempt" where
  "insightPart config world company now user diff diffRecordId l ev =
     (let insight = buildInsightFromDiff config
            \<lparr>inputUser = user, inputCompanyId = companyId company, inputDiffId = diffRecordId,
             inputSeverity = diffSeverity diff,
             inputVerificationState = diffVerificationState diff,
             inputNormalizedDiff = normalizedDiff diff, inputNow = now\<rparr>
      in case createInput insight of
           None \<Rightarrow> returnOk l ev
         | Some input \<Rightarrow>
             if \<not> shouldCreate insight then returnOk l ev
             else (case createInsight world input of
                     Inl e \<Rightarrow> caught e l ev
                   | Inr _ \<Rightarrow> returnOk (l\<lparr>insightCreated := True\<rparr>) (ev @ [InsightCreated input])))"

definition diffPart ::
  "collation \<Rightarrow> entitlements_config \<Rightarrow> 'c crawl_world \<Rightarrow> 'c company \<Rightarrow> int \<Rightarrow> entitlement_user \<Rightarrow>
   crawl_extraction_success \<Rightarrow> stored_snapshot option \<Rightarrow> object_id \<Rightarrow>
   'c locals \<Rightarrow> 'c crawl_event list \<Rightarrow> 'c attempt" where
  "diffPart localeCompare config world company now user extraction previousSnapshot
     currentSnapshotRecordId l ev =
     (case previousSnapshot of
        None \<Rightarrow> returnOk l ev
      | Some previous \<Rightarrow>
          (case toNormalizedPayload localeCompare (storedPricingPayload previous) of
             None \<Rightarrow> returnOk l ev
           | Some previousPayload \<Rightarrow>
               (case generatePricingDiff localeCompare (isoTimeNow world) previousPayload
                       (pricingPayload extraction) (isVerified extraction) of
                  None \<Rightarrow> returnOk l ev
                | Some diff \<Rightarrow>
                    (let input = \<lparr>diffUserId = userId company,
                                  diffCompanyId = companyId company,
                                  previousSnapshotId = storedSnapshotId previous,
                                  currentSnapshotId = currentSnapshotRecordId,
                                  diffNormalizedDiff = normalizedDiff diff,
                                  diffInputSeverity = diffSeverity diff,
                                  diffInputVerificationState = diffVerificationState diff,
                                  detectedAt = now\<rparr>
                     in case createDiff world input of
                          Inl e \<Rightarrow> caught e l ev
                        | Inr diffRecordId \<Rightarrow>
                            insightPart config world company now user diff diffRecordId
                              (l\<lparr>diffCreated := True\<rparr>) (ev @ [DiffCreated input])))))"

definition snapshotPart ::
  "collation \<Rightarrow> entitlements_config \<Rightarrow> 'c crawl_world \<Rightarrow> 'c company \<Rightarrow> int \<Rightarrow> entitlement_user \<Rightarrow>
   crawl_extraction_success \<Rightarrow> 'c locals \<Rightarrow> 'c crawl_event list \<Rightarrow> 'c attempt" where
  "snapshotPart localeCompare config world company now user extraction l ev =
     (case findLatestSnapshot world (companyId company) of
        Inl e \<Rightarrow> caught e l ev
      | Inr previousSnapshot \<Rightarrow>
          (let input = \<lparr>snapshotUserId = userId company,
                        snapshotCompanyId = companyId company,
                        capturedAt = now,
                        snapshotCaptureMethod = captureMethod extraction,
                        snapshotConfidence = confidence extraction,
                        snapshotContentHash = contentHash extraction,
                        snapshotPricingPayload = pricingPayload extraction,
                        snapshotIsVerified = isVerified extraction\<rparr>
           in case createSnapshot world input of
                Inl e \<Rightarrow> caught e l ev
              | Inr currentSnapshotRecordId \<Rightarrow>
                  diffPart localeCompare config world company now user extraction
                    previousSnapshot currentSnapshotRecordId
                    (l\<lparr>snapshotCreated := True, changed := True\<rparr>)
                    (ev @ [SnapshotCreated input])))"

definition extractionPart ::
  "collation \<Rightarrow> entitlements_config \<Rightarrow> 'c crawl_world \<Rightarrow> 'c company \<Rightarrow> int \<Rightarrow> entitlement_user \<Rightarrow>
   string \<Rightarrow> 'c locals \<Rightarrow> 'c crawl_event list \<Rightarrow> 'c attempt" where
  "extractionPart localeCompare config world company now user url l ev =
     (case fetchAndExtractPricing world url of
        Inl e \<Rightarrow> caught e l ev
      | Inr result \<Rightarrow>
          (case result of
             ExtractionFailed f \<Rightarrow>
               returnFailure (failureCrawlStatus (failStatus f)) (failError f) l
                 (ev @ [Extracted url result])
           | ExtractionOk extraction \<Rightarrow>
               (let l1 = l\<lparr>localContentHash := Some (contentHash extraction),
                           localConfidence := Some (confidence extraction)\<rparr>
                in if truthy (latestContentHash company)
                      \<and> latestContentHash company = Some (contentHash extraction)
                   then (l1\<lparr>finalStatus := Ok, finalErrorMessage := None,
                            skippedByHash := True\<rparr>,
                         ev @ [Extracted url result], False)
                   else snapshotPart localeCompare config world company now user extraction l1
                          (ev @ [Extracted url result]))))"

definition userPart ::
  "collation \<Rightarrow> entitlements_config \<Rightarrow> 'c crawl_world \<Rightarrow> 'c company \<Rightarrow> int \<Rightarrow>
   string option \<Rightarrow> 'c locals \<Rightarrow> 'c crawl_event list \<Rightarrow> 'c attempt" where
  "userPart localeCompare config world company now source l ev =
     (case source of
        None \<Rightarrow> returnFailure ManualNeeded ''No crawl URL is available'' l ev
      | Some url \<Rightarrow>
          if url = [] then returnFailure ManualNeeded ''No crawl URL is available'' l ev
          else
            (case findUserById world (userId company) of
               Inl e \<Rightarrow> caught e l ev
             | Inr None \<Rightarrow> returnFailure Error ''User not found for company'' l ev
             | Inr (Some user) \<Rightarrow>
                 if \<not> hasAccess (resolveEntitlements config user now)
                 then returnFailure Idle ''User is not eligible for competitor crawling'' l ev
                 else extractionPart localeCompare config world company now user url l ev))"

definition tryBlock ::
  "collation \<Rightarrow> entitlements_config \<Rightarrow> 'c crawl_world \<Rightarrow> 'c company \<Rightarrow> int \<Rightarrow> 'c attempt" where
  "tryBlock localeCompare config world company now =
     (let source = primaryPricingUrl company
      in case homepageUrl company of
           None \<Rightarrow> userPart localeCompare config world company now source initialLocals []
         | Some homepage \<Rightarrow>
             if truthy source \<or> homepage = []
             then userPart localeCompare config world company now source initialLocals []
             else
               (let l1 = initialLocals\<lparr>attemptedDiscovery := True\<rparr>
                in case discoverPricingUrlsFromHomepage world homepage (domain company) of
                     Inl e \<Rightarrow> caught e l1 []
                   | Inr discovery \<Rightarrow>
                       (let l2 = l1\<lparr>discoveredCandidates :=
                                       Some (mergePricingUrlCandidates world
                                               (pricingUrlCandidates company)
                                               (candidates discovery)),
                                     discoveredPrimaryPricingUrl :=
                                       recommendedPrimaryUrl discovery\<rparr>
                        in userPart localeCompare config world company now
                             (if truthy (recommendedPrimaryUrl discovery)
                              then recommendedPrimaryUrl discovery else source)
                             l2 [])))"

text \<open>The \<open>finally\<close> block: the update it sends, from the locals as the \<open>try\<close> block left
  them.\<close>

definition finalUpdate ::
  "crawl_constants \<Rightarrow> 'c company \<Rightarrow> int \<Rightarrow> 'c locals \<Rightarrow> 'c company_update" where
  "finalUpdate constants company now l =
     \<lparr>setCrawlLeaseUntilNull = True,
      setNextCrawlAt = now + statusToNextDelayMs constants (finalStatus l),
      setLastCrawlAt = now,
      setLastCrawlStatus = finalStatus l,
      setLatestContentHash = localContentHash l,
      setLatestConfidence = localConfidence l,
      setPricingUrlCandidates =
        (if attemptedDiscovery l
         then Some (case discoveredCandidates l of
                      None \<Rightarrow> pricingUrlCandidates company
                    | Some merged \<Rightarrow> merged)
         else None),
      setPrimaryPricingUrl =
        (if \<not> truthy (primaryPricingUrl company) \<and> truthy (discoveredPrimaryPricingUrl l)
         then discoveredPrimaryPricingUrl l else None),
      setLastCrawlError =
        (if truthy (finalErrorMessage l) then map_option truncateError (finalErrorMessage l)
         else None),
      unsetLastCrawlError = (\<not> truthy (finalErrorMessage l))\<rparr>"

definition auditEventTypeByStatus :: "crawl_status \<Rightarrow> audit_event_type option" where
  "auditEventTypeByStatus st =
     (if st = Blocked then Some CrawlBlocked
      else if st = ManualNeeded then Some CrawlManualNeeded
      else if st = Error then Some CrawlError
      else None)"

definition toResult :: "'c company \<Rightarrow> 'c locals \<Rightarrow> bool \<Rightarrow> crawl_company_result" where
  "toResult company l withReason =
     \<lparr>resultCompanyId = companyId company,
      resultStatus = finalStatus l,
      resultChanged = changed l,
      resultSnapshotCreated = snapshotCreated l,
      resultDiffCreated = diffCreated l,
      resultInsightCreated = insightCreated l,
      resultSkippedByHash = skippedByHash l,
      resultReason = (if withReason then finalErrorMessage l else None)\<rparr>"

text \<open>If the final update throws, the promise rejects with what it threw and the returned
  object is lost; otherwise the audit event is logged (which never throws) and the object
  returned.\<close>

definition processCompany ::
  "collation \<Rightarrow> entitlements_config \<Rightarrow> crawl_constants \<Rightarrow> 'c crawl_world \<Rightarrow> 'c company \<Rightarrow> int \<Rightarrow>
   (thrown + crawl_company_result) \<times> 'c crawl_event list" where
  "processCompany localeCompare config constants world company now =
     (case tryBlock localeCompare config world company now of
        (l, ev, withReason) \<Rightarrow>
          (let update = finalUpdate constants company now l;
               ev1 = ev @ [CompanyUpdateSent update]
           in case updateCompany world (companyId company) update of
                Inl e \<Rightarrow> (Inl e, ev1)
              | Inr _ \<Rightarrow>
                  (Inr (toResult company l withReason),
                   (case auditEventTypeByStatus (finalStatus l) of
                      None \<Rightarrow> ev1
                    | Some eventType \<Rightarrow>
                        ev1 @ [AuditLogged eventType (finalStatus l) (finalErrorMessage l)
                                 (setNextCrawlAt update)]))))"

subsection \<open>Notions used to state what a run did\<close>

fun isExtracted :: "'c crawl_event \<Rightarrow> bool" where
  "isExtracted (Extracted _ _) = True"
| "isExtracted _ = False"

definition nothingDone :: "'c locals \<Rightarrow> bool" where
  "nothingDone l \<longleftrightarrow>
     \<not> changed l \<and> \<not> snapshotCreated l \<and> \<not> diffCreated l \<and> \<not> insightCreated l \<and> \<not> skippedByHash l"

fun isInsightCreated :: "'c crawl_event \<Rightarrow> bool" where
  "isInsightCreated (InsightCreated _) = True"
| "isInsightCreated _ = False"

definition insightInputOf ::
  "'c company \<Rightarrow> int \<Rightarrow> entitlement_user \<Rightarrow> diff_input \<Rightarrow> object_id \<Rightarrow> insight_build_input" where
  "insightInputOf company now user d diffRecordId =
     \<lparr>inputUser = user, inputCompanyId = companyId company, inputDiffId = diffRecordId,
      inputSeverity = diffInputSeverity d,
      inputVerificationState = diffInputVerificationState d,
      inputNormalizedDiff = diffNormalizedDiff d, inputNow = now\<rparr>"

definition insightJustified ::
  "entitlements_config \<Rightarrow> 'c crawl_world \<Rightarrow> 'c company \<Rightarrow> int \<Rightarrow> entitlement_user \<Rightarrow>
   'c crawl_event list \<Rightarrow> insight_create_input \<Rightarrow> bool" where
  "insightJustified config world company now user events created \<longleftrightarrow>
     (\<exists>d diffRecordId.
        DiffCreated d \<in> set events \<and> createDiff world d = Inr diffRecordId \<and>
        shouldCreate (buildInsightFromDiff config (insightInputOf company now user d diffRecordId)) \<and>
        createInput (buildInsightFromDiff config (insightInputOf company now user d diffRecordId))
          = Some created)"

section \<open>Example data\<close>

text \<open>
  Modelled from the spec: the configuration module \<open>@/config\<close>, which the sources import
  but do not contain. This is the plan rule table of the specification (Starter: 3
  competitors, gate \<open>high_only\<close>; Pro: 10 competitors, gate \<open>high_and_medium\<close>), with a
  seven-day trial on Starter. Only the examples use it; the theorems hold for every
  configuration.
\<close>

definition specConfig :: entitlements_config where
  "specConfig =
     \<lparr>trialDays = 7, trialPlanTier = Starter, paidFallbackPlanTier = Starter,
      plans = (\<lambda>tier. case tier of
                 Starter \<Rightarrow> \<lparr>ruleCompetitorLimit = 3, ruleInsightSeverityGate = HighOnly,
                              ruleCanReceiveWeeklyDigest = True\<rparr>
               | Pro \<Rightarrow> \<lparr>ruleCompetitorLimit = 10, ruleInsightSeverityGate = HighAndMedium,
                          ruleCanReceiveWeeklyDigest = True\<rparr>),
      severityGates = (\<lambda>gate. case gate of HighOnly \<Rightarrow> [High] | HighAndMedium \<Rightarrow> [High, Medium]),
      stripePlans = [(''price_starter'', Some Starter), (''price_pro'', Some Pro)]\<rparr>"

text \<open>The defaults of \<open>constants.ts\<close>.\<close>

definition defaultConstants :: crawl_constants where
  "defaultConstants =
     \<lparr>SUCCESS_CRAWL_DELAY_MS = 86400000, ERROR_BACKOFF_MS = 21600000,
      BLOCKED_BACKOFF_MS = 129600000, MANUAL_NEEDED_BACKOFF_MS = 172800000\<rparr>"

text \<open>A paying Starter user, a leased competitor of theirs, its stored snapshot with the
  prices 19 and 49 per month, and a world in which every store call succeeds.\<close>

definition storedDigest :: string where
  "storedDigest = ''9f86d081884c7d659a2feaa0c55ad015a3bf4f1b2b0b822cd15d6c15b0f00a08''"

definition changedDigest :: string where
  "changedDigest = ''60303ae22b998861bce3b28f33eec1be758a213c86c93c076dbe9f558c11c752''"

definition exampleUser :: entitlement_user where
  "exampleUser =
     \<lparr>userObjectId = 1, userHasAccess = True, priceId = Some ''price_starter'',
      trialStatus = Converted, trialStartedAt = None, trialEndsAt = None\<rparr>"

definition exampleCompany :: "unit company" where
  "exampleCompany =
     \<lparr>companyId = 7, userId = 1, companyType = Competitor, domain = ''acme.example'',
      homepageUrl = Some ''https://acme.example'',
      primaryPricingUrl = Some ''https://acme.example/pricing'',
      pricingUrlCandidates = (), nextCrawlAt = Some 0, crawlLeaseUntil = Some 360000,
      lastCrawlAt = None, lastCrawlStatus = Ok, lastCrawlError = None,
      latestContentHash = Some storedDigest,
      latestConfidence = Some (9 / 10)\<rparr>"

definition examplePayload :: "rat \<Rightarrow> pricing_payload" where
  "examplePayload upper =
     \<lparr>sourceUrl = ''https://acme.example/pricing'', pageTitle = Some ''Pricing'',
      pageDescription = None, planNames = [''pro'', ''starter''],
      priceMentions = [\<lparr>amount = 19, currency = ''USD'', period = Month\<rparr>,
                       \<lparr>amount = upper, currency = ''USD'', period = Month\<rparr>],
      customPricingHints = []\<rparr>"

definition exampleExtraction :: "string \<Rightarrow> rat \<Rightarrow> crawl_extraction_success" where
  "exampleExtraction digest upper =
     \<lparr>contentHash = digest, pricingPayload = examplePayload upper,
      confidence = 9 / 10, isVerified = True, captureMethod = Static\<rparr>"

definition exampleStored :: stored_snapshot where
  "exampleStored =
     \<lparr>storedSnapshotId = 100,
      storedPricingPayload = Some
        \<lparr>rawSourceUrl = Some ''https://acme.example/pricing'', rawPageTitle = Some ''Pricing'',
         rawPageDescription = None, rawPlanNames = [''pro'', ''starter''],
         rawCustomPricingHints = [],
         rawPriceMentions =
           [\<lparr>rawAmount = Some 19, rawCurrency = Some ''USD'', rawPeriod = Some ''month''\<rparr>,
            \<lparr>rawAmount = Some 49, rawCurrency = Some ''USD'', rawPeriod = Some ''month''\<rparr>]\<rparr>\<rparr>"

definition exampleWorld :: "crawl_extraction_success \<Rightarrow> unit crawl_world" where
  "exampleWorld extraction =
     \<lparr>discoverPricingUrlsFromHomepage = (\<lambda>_ _. Inl OtherThrown),
      mergePricingUrlCandidates = (\<lambda>_ _. ()),
      findUserById = (\<lambda>_. Inr (Some exampleUser)),
      fetchAndExtractPricing = (\<lambda>_. Inr (ExtractionOk extraction)),
      findLatestSnapshot = (\<lambda>_. Inr (Some exampleStored)),
      createSnapshot = (\<lambda>_. Inr 101),
      createDiff = (\<lambda>_. Inr 202),
      createInsight = (\<lambda>_. Inr ()),
      updateCompany = (\<lambda>_ _. Inr ()),
      isoTimeNow = ''2026-01-02T00:00:00.000Z''\<rparr>"



definition exampleInsightInput :: insight_build_input where
  "exampleInsightInput =
     \<lparr>inputUser = exampleUser, inputCompanyId = 7, inputDiffId = 202, inputSeverity = Medium,
      inputVerificationState = Verified,
      inputNormalizedDiff =
        \<lparr>priceChanges = [], addedHints = [''contact sales''], removedHints = [],
         previousPriceCount = 2, currentPriceCount = 2, previousPlanCount = 2,
         currentPlanCount = 2, changedAt = ''2026-01-02T00:00:00.000Z''\<rparr>,
      inputNow = 1000\<rparr>"

section \<open>Regular expressions as the extractor uses them\<close>














section \<open>The price-mention scan (libs/crawler/extract.ts)\<close>
















subsection \<open>Bare amount tokens\<close>




section \<open>URLs (the runtime's \<open>URL\<close> class, as normalize.ts uses it)\<close>

text \<open>
  \<open>normalizeUrl\<close> rests on the \<open>URL\<close> class of the runtime, which is not part of the
  sources. The model below follows the URL Standard for \<open>http\<close> and \<open>https\<close> URLs: the
  input is stripped of tabs and newlines and of leading and trailing control characters
  and spaces; the scheme is case-insensitive; after it any run of slashes and backslashes
  is skipped; the authority ends at the first slash, backslash, \<open>?\<close> or \<open>#\<close> and holds
  optional credentials (up to the last \<open>@\<close>), the host and an optional port; the host is
  not empty, has no forbidden host character and is lower-cased; a default port is
  dropped; in the path a backslash is a slash and the characters of the path percent-encode
  set are percent-encoded. Outside the model, and rejected by it: hosts with percent
  escapes, non-ASCII characters or IPv6 literals. Not modelled: the canonical form of IPv4
  hosts, the removal of dot segments from paths and the encoding of credentials.
\<close>

record url =
  protocol :: string
  username :: string
  password :: string
  hostname :: string
  port :: "nat option"
  pathname :: string
  search :: "string option"
  hash :: "string option"

definition startsWith :: "string \<Rightarrow> string \<Rightarrow> bool" where
  "startsWith s pre \<longleftrightarrow> take (length pre) s = pre"

fun includesText :: "string \<Rightarrow> string \<Rightarrow> bool" where
  "includesText [] sub = (sub = [])"
| "includesText (c # cs) sub = (startsWith (c # cs) sub \<or> includesText cs sub)"

definition backslash :: char where
  "backslash = CHR 0x5C"

definition isSlash :: "char \<Rightarrow> bool" where
  "isSlash c \<longleftrightarrow> c = CHR ''/'' \<or> c = backslash"

definition isTabOrNewline :: "char \<Rightarrow> bool" where
  "isTabOrNewline c \<longleftrightarrow> c = CHR 0x09 \<or> c = CHR 0x0A \<or> c = CHR 0x0D"

definition isControlOrSpace :: "char \<Rightarrow> bool" where
  "isControlOrSpace c \<longleftrightarrow> of_char c \<le> (32::nat)"

definition stripUrlInput :: "string \<Rightarrow> string" where
  "stripUrlInput s =
     rev (dropWhile isControlOrSpace
            (rev (dropWhile isControlOrSpace (filter (\<lambda>c. \<not> isTabOrNewline c) s))))"

definition endsAuthority :: "char \<Rightarrow> bool" where
  "endsAuthority c \<longleftrightarrow> isSlash c \<or> c = CHR ''?'' \<or> c = CHR ''#''"

definition forbiddenHostChar :: "char \<Rightarrow> bool" where
  "forbiddenHostChar c \<longleftrightarrow>
     of_char c \<le> (32::nat) \<or> (127::nat) \<le> of_char c \<or>
     c \<in> set [CHR ''#'', CHR ''/'', CHR '':'', CHR ''<'', CHR ''>'', CHR ''?'', CHR ''@'',
                CHR ''['', backslash, CHR '']'', CHR ''^'', CHR ''|'', CHR ''%'']"

definition validHost :: "string \<Rightarrow> bool" where
  "validHost h \<longleftrightarrow> h \<noteq> [] \<and> list_all (\<lambda>c. \<not> forbiddenHostChar c) h"

definition defaultPort :: "string \<Rightarrow> nat" where
  "defaultPort scheme = (if scheme = ''https'' then 443 else 80)"

definition hexDigit :: "nat \<Rightarrow> char" where
  "hexDigit n = (if n < 10 then char_of (48 + n) else char_of (55 + n))"

definition inPathEncodeSet :: "char \<Rightarrow> bool" where
  "inPathEncodeSet c \<longleftrightarrow>
     of_char c \<le> (32::nat) \<or> (127::nat) \<le> of_char c \<or>
     c \<in> set [CHR 0x22, CHR ''#'', CHR ''<'', CHR ''>'', CHR ''?'', CHR 0x60, CHR ''{'', CHR ''}'']"

definition percentEncode :: "char \<Rightarrow> string" where
  "percentEncode c =
     (if inPathEncodeSet c
      then [CHR ''%'', hexDigit (of_char c div 16), hexDigit (of_char c mod 16)]
      else [c])"

text \<open>The path of a special URL from the text given for it (by the parser or by the
  \<open>pathname\<close> setter): it starts with a slash.\<close>

definition parsePath :: "string \<Rightarrow> string" where
  "parsePath v =
     concat (map percentEncode
       (map (\<lambda>c. if c = backslash then CHR ''/'' else c)
          (case v of
             [] \<Rightarrow> ''/''
           | c # _ \<Rightarrow> if isSlash c then v else CHR ''/'' # v)))"

definition parseUrl :: "string \<Rightarrow> url option" where
  "parseUrl input =
     (let s = stripUrlInput input;
          schemeText = toLowerCase (takeWhile (\<lambda>c. c \<noteq> CHR '':'') s);
          afterScheme = dropWhile (\<lambda>c. c \<noteq> CHR '':'') s
      in if afterScheme = [] \<or> (schemeText \<noteq> ''http'' \<and> schemeText \<noteq> ''https'') then None
         else
           (let rest = dropWhile isSlash (tl afterScheme);
                authority = takeWhile (\<lambda>c. \<not> endsAuthority c) rest;
                afterAuthority = dropWhile (\<lambda>c. \<not> endsAuthority c) rest;
                hostPort = rev (takeWhile (\<lambda>c. c \<noteq> CHR ''@'') (rev authority));
                credentials = (if CHR ''@'' \<in> set authority
                               then take (length authority - length hostPort - 1) authority
                               else []);
                passwordPart = dropWhile (\<lambda>c. c \<noteq> CHR '':'') credentials;
                hostText = takeWhile (\<lambda>c. c \<noteq> CHR '':'') hostPort;
                portPart = dropWhile (\<lambda>c. c \<noteq> CHR '':'') hostPort;
                portText = (if portPart = [] then [] else tl portPart);
                pathText = takeWhile (\<lambda>c. c \<noteq> CHR ''?'' \<and> c \<noteq> CHR ''#'') afterAuthority;
                afterPath = dropWhile (\<lambda>c. c \<noteq> CHR ''?'' \<and> c \<noteq> CHR ''#'') afterAuthority;
                queryPart = takeWhile (\<lambda>c. c \<noteq> CHR ''#'') afterPath;
                fragmentPart = dropWhile (\<lambda>c. c \<noteq> CHR ''#'') afterPath
            in if \<not> validHost hostText then None
               else if \<not> list_all isDigit portText \<or> digitsToNat portText > 65535 then None
               else Some
                 \<lparr>protocol = schemeText,
                  username = takeWhile (\<lambda>c. c \<noteq> CHR '':'') credentials,
                  password = (if passwordPart = [] then [] else tl passwordPart),
                  hostname = toLowerCase hostText,
                  port = (if portText = [] \<or> digitsToNat portText = defaultPort schemeText
                          then None else Some (digitsToNat portText)),
                  pathname = parsePath pathText,
                  search = (if queryPart = [] then None else Some (tl queryPart)),
                  hash = (if fragmentPart = [] then None else Some (tl fragmentPart))\<rparr>))"

text \<open>\<open>url.toString()\<close>.\<close>

definition serializeUrl :: "url \<Rightarrow> string" where
  "serializeUrl u =
     protocol u @ ''://''
     @ (if username u = [] \<and> password u = [] then []
        else username u @ (if password u = [] then [] else CHR '':'' # password u) @ ''@'')
     @ hostname u
     @ (case port u of None \<Rightarrow> [] | Some n \<Rightarrow> CHR '':'' # showNat n)
     @ pathname u
     @ (case search u of None \<Rightarrow> [] | Some q \<Rightarrow> CHR ''?'' # q)
     @ (case hash u of None \<Rightarrow> [] | Some f \<Rightarrow> CHR ''#'' # f)"

text \<open>The \<open>hostname\<close> setter leaves the URL as it is when the value is empty or not a valid
  host; the \<open>pathname\<close> setter parses its value as a path.\<close>

definition setHostname :: "string \<Rightarrow> url \<Rightarrow> url" where
  "setHostname v u = (if \<not> validHost v then u else u\<lparr>hostname := toLowerCase v\<rparr>)"

definition setPathname :: "string \<Rightarrow> url \<Rightarrow> url" where
  "setPathname v u = u\<lparr>pathname := parsePath v\<rparr>"

section \<open>The URL normalizer (libs/crawler/normalize.ts)\<close>

text \<open>\<open>hostname.toLowerCase().replace(/^www\./, "")\<close>.\<close>

definition normalizeHostname :: "string \<Rightarrow> string" where
  "normalizeHostname h =
     (let lowered = toLowerCase h
      in if startsWith lowered ''www.'' then drop 4 lowered else lowered)"

text \<open>\<open>pathname.replace(/\/{2,}/g, "/")\<close>: a run of slashes becomes one slash.\<close>

fun collapseSlashes :: "string \<Rightarrow> string" where
  "collapseSlashes (a # b # r) =
     (if a = CHR ''/'' \<and> b = CHR ''/'' then collapseSlashes (b # r)
      else a # collapseSlashes (b # r))"
| "collapseSlashes r = r"

definition normalizeUrlPath :: "string \<Rightarrow> string" where
  "normalizeUrlPath p =
     (let normalized = collapseSlashes p in if normalized = [] then ''/'' else normalized)"

definition normalizeUrl :: "string \<Rightarrow> string option" where
  "normalizeUrl v =
     (let prepared = (if includesText v ''://'' then v else ''https://'' @ v)
      in case parseUrl prepared of
           None \<Rightarrow> None
         | Some u \<Rightarrow>
             if protocol u \<noteq> ''http'' \<and> protocol u \<noteq> ''https'' then None
             else
               (let u1 = setHostname (normalizeHostname (hostname u)) u;
                    u2 = u1\<lparr>hash := None\<rparr>;
                    u3 = u2\<lparr>search := None\<rparr>;
                    u4 = setPathname (normalizeUrlPath (pathname u3)) u3
                in Some (serializeUrl u4)))"

section \<open>Normal forms of URLs\<close>

text \<open>A path as the URL parser leaves it: it starts with a slash and none of its characters
  is a backslash or in the path percent-encode set.\<close>

definition pathOk :: "string \<Rightarrow> bool" where
  "pathOk p \<longleftrightarrow>
     p \<noteq> [] \<and> hd p = CHR ''/'' \<and> list_all (\<lambda>c. \<not> inPathEncodeSet c \<and> c \<noteq> backslash) p"

text \<open>
  The URLs that \<open>normalizeUrl\<close> serializes: scheme \<open>http\<close> or \<open>https\<close>, a valid lower-case
  host, credentials that stay inside the authority, no default port, a parsed path without
  a run of slashes, no query and no fragment.
\<close>

definition canonicalUrl :: "url \<Rightarrow> bool" where
  "canonicalUrl u \<longleftrightarrow>
     (protocol u = ''http'' \<or> protocol u = ''https'') \<and>
     validHost (hostname u) \<and> toLowerCase (hostname u) = hostname u \<and>
     list_all (\<lambda>c. \<not> endsAuthority c \<and> c \<noteq> CHR '':'' \<and> \<not> isTabOrNewline c) (username u) \<and>
     list_all (\<lambda>c. \<not> endsAuthority c \<and> \<not> isTabOrNewline c) (password u) \<and>
     (case port u of None \<Rightarrow> True | Some n \<Rightarrow> n \<le> 65535 \<and> n \<noteq> defaultPort (protocol u)) \<and>
     pathOk (pathname u) \<and> collapseSlashes (pathname u) = pathname u \<and>
     search u = None \<and> hash u = None"

text \<open>The host of a URL text begins with \<open>www.\<close>.\<close>

definition hostHasWww :: "string \<Rightarrow> bool" where
  "hostHasWww y \<longleftrightarrow>
     (case parseUrl y of None \<Rightarrow> False | Some u \<Rightarrow> startsWith (hostname u) ''www.'')"

text \<open>The parts of the authority in the serialization of a URL.\<close>

definition credentialText :: "url \<Rightarrow> string" where
  "credentialText u =
     (if username u = [] \<and> password u = [] then []
      else username u @ (if password u = [] then [] else CHR '':'' # password u))"

definition portSuffix :: "url \<Rightarrow> string" where
  "portSuffix u = (case port u of None \<Rightarrow> [] | Some n \<Rightarrow> CHR '':'' # showNat n)"

definition authorityText :: "url \<Rightarrow> string" where
  "authorityText u =
     (if credentialText u = [] then [] else credentialText u @ ''@'')
     @ hostname u @ portSuffix u"

chapter \<open>Properties\<close>

section \<open>Cron authentication\<close>

text \<open>
  C10. If the environment variable \<open>CRON_SECRET\<close> is unset or empty, every request to the
  crawl scheduler endpoint, by \<open>GET\<close> or by \<open>POST\<close>, is answered with status 401 and the body
  \<open>{error: "Unauthorized"}\<close>, whatever \<open>x-cron-secret\<close> and \<open>Authorization\<close> headers it
  carries, and before any collaborator is called.
\<close>

theorem cron_secret_unset_rejects_all:
  "cronSecret = None \<or> cronSecret = Some [] \<Longrightarrow>
     GET_cron cronSecret batchLimit world req = (\<lparr>status = 401, body = ErrorBody ''Unauthorized''\<rparr>, []) \<and>
     POST_cron cronSecret batchLimit world req = (\<lparr>status = 401, body = ErrorBody ''Unauthorized''\<rparr>, [])"
  by (auto simp: GET_cron_def POST_cron_def handle_def requireCronAuth_def isCronAuthorized_def
      trim_def)

theorem cron_secret_unset_rejects_all_witness:
  "GET_cron None 3
     \<lparr>connectMongo = Inr (), acquireCronLock = Inl OtherThrown,
      runCrawlBatch = (\<lambda>n. Inr n), releaseCronLock = Inr ()\<rparr>
     \<lparr>xCronSecret = Some [], authorization = Some ''Bearer '', limitParam = None\<rparr>
   = (\<lparr>status = 401, body = ErrorBody ''Unauthorized''\<rparr>, [])"
  using cron_secret_unset_rejects_all [of None 3
      "\<lparr>connectMongo = Inr (), acquireCronLock = Inl OtherThrown,
        runCrawlBatch = (\<lambda>n. Inr n), releaseCronLock = Inr ()\<rparr>"
      "\<lparr>xCronSecret = Some [], authorization = Some ''Bearer '', limitParam = None\<rparr>"]
  by simp

section \<open>The crawl-now trigger\<close>

lemma crawl_now_reached:
  assumes "reachesLease w company"
  shows "POST_crawl_now w =
     (let now = clock w;
          leaseUntil = crawlLeaseUntil company;
          leaseIsActive = (case leaseUntil of None \<Rightarrow> False | Some l \<Rightarrow> l > now);
          shouldClearLease = (leaseUntil \<noteq> None \<and> \<not> leaseIsActive);
          company2 = (if shouldClearLease
                      then company\<lparr>nextCrawlAt := Some now, crawlLeaseUntil := None\<rparr>
                      else company\<lparr>nextCrawlAt := Some now\<rparr>)
      in (\<lparr>status = 200,
           body = Scheduled (companyId company) True (Some now) (crawlLeaseUntil company2)
                    (if leaseIsActive then LeaseActive
                     else if leaseUntil \<noteq> None then LeaseStaleOrExpired else LeaseNone)
                    shouldClearLease\<rparr>,
          Some company2))"
  using assms
  by (auto simp: reachesLease_def POST_crawl_now_def triggerPrelude_def Let_def
      split: option.splits sum.splits)

text \<open>
  C8, the claim as stated, fails: with an active lease the \<open>crawl-now\<close> handler does leave
  \<open>crawlLeaseUntil\<close> untouched, but it answers 200 with \<open>scheduled: true\<close> and
  \<open>leaseState: "active"\<close>; it does not report a conflict. (The request below is for a
  competitor leased until 2000 at time 1000.)
\<close>

theorem crawl_now_active_lease_not_conflict:
  "\<not> reportedAsConflicting
       (fst (POST_crawl_now
          \<lparr>sessionUserId = Some ''u1'', companyIdValid = True, connectStore = Inr (),
           enforceWriteRateLimit = Inr \<lparr>allowed = True, retryAfterSeconds = 0\<rparr>,
           findCompany = Inr (Some
             \<lparr>companyId = 7, userId = 1, companyType = Competitor, domain = ''acme.example'',
              homepageUrl = None, primaryPricingUrl = Some ''https://acme.example/pricing'',
              pricingUrlCandidates = (), nextCrawlAt = Some 5000, crawlLeaseUntil = Some 2000,
              lastCrawlAt = None, lastCrawlStatus = Ok, lastCrawlError = None,
              latestContentHash = None, latestConfidence = None\<rparr>),
           clock = 1000, saveCompany = Inr ()\<rparr>))
   \<and> fst (POST_crawl_now
          \<lparr>sessionUserId = Some ''u1'', companyIdValid = True, connectStore = Inr (),
           enforceWriteRateLimit = Inr \<lparr>allowed = True, retryAfterSeconds = 0\<rparr>,
           findCompany = Inr (Some
             \<lparr>companyId = 7, userId = 1, companyType = Competitor, domain = ''acme.example'',
              homepageUrl = None, primaryPricingUrl = Some ''https://acme.example/pricing'',
              pricingUrlCandidates = (), nextCrawlAt = Some 5000, crawlLeaseUntil = Some 2000,
              lastCrawlAt = None, lastCrawlStatus = Ok, lastCrawlError = None,
              latestContentHash = None, latestConfidence = None\<rparr>),
           clock = 1000, saveCompany = Inr ()\<rparr>)
     = \<lparr>status = 200,
        body = Scheduled 7 True (Some 1000) (Some 2000) LeaseActive False\<rparr>"
  by (simp add: reportedAsConflicting_def POST_crawl_now_def triggerPrelude_def Let_def)

text \<open>
  C8, amended. A \<open>crawl-now\<close> request that reaches the lease logic stores
  \<open>nextCrawlAt = now\<close> and clears \<open>crawlLeaseUntil\<close> exactly when a lease exists and is
  stale (\<open>\<le> now\<close>); when the lease is active it leaves \<open>crawlLeaseUntil\<close> untouched and the
  request is answered with status 200, \<open>scheduled: true\<close>, \<open>leaseState: "active"\<close> and
  \<open>leaseCleared: false\<close>.
\<close>

theorem crawl_now_sets_next_and_clears_stale_lease:
  assumes "reachesLease w company"
  shows "\<exists>resp stored.
           POST_crawl_now w = (resp, Some stored) \<and>
           status resp = 200 \<and>
           nextCrawlAt stored = Some (clock w) \<and>
           crawlLeaseUntil stored =
             (case crawlLeaseUntil company of
                None \<Rightarrow> None
              | Some l \<Rightarrow> if l \<le> clock w then None else Some l) \<and>
           (case crawlLeaseUntil company of
              None \<Rightarrow> True
            | Some l \<Rightarrow>
                if clock w < l
                then crawlLeaseUntil stored = crawlLeaseUntil company \<and>
                     body resp = Scheduled (companyId company) True (Some (clock w))
                                   (crawlLeaseUntil company) LeaseActive False
                else True)"
  unfolding crawl_now_reached [OF assms]
  by (auto simp: Let_def split: option.splits)

theorem crawl_now_sets_next_and_clears_stale_lease_witness:
  "\<exists>resp stored.
     POST_crawl_now
       \<lparr>sessionUserId = Some ''u1'', companyIdValid = True, connectStore = Inr (),
        enforceWriteRateLimit = Inr \<lparr>allowed = True, retryAfterSeconds = 0\<rparr>,
        findCompany = Inr (Some
          \<lparr>companyId = 7, userId = 1, companyType = Competitor, domain = ''acme.example'',
           homepageUrl = None, primaryPricingUrl = None,
           pricingUrlCandidates = (), nextCrawlAt = Some 5000, crawlLeaseUntil = Some 900,
           lastCrawlAt = None, lastCrawlStatus = Ok, lastCrawlError = None,
           latestContentHash = None, latestConfidence = None\<rparr>),
        clock = 1000, saveCompany = Inr ()\<rparr> = (resp, Some stored) \<and>
     status resp = 200 \<and> nextCrawlAt stored = Some 1000 \<and> crawlLeaseUntil stored = None"
proof -
  let ?c = "\<lparr>companyId = 7, userId = 1, companyType = Competitor, domain = ''acme.example'',
           homepageUrl = None, primaryPricingUrl = None,
           pricingUrlCandidates = (), nextCrawlAt = Some 5000, crawlLeaseUntil = Some 900,
           lastCrawlAt = None, lastCrawlStatus = Ok, lastCrawlError = None,
           latestContentHash = None, latestConfidence = None\<rparr>"
  let ?w = "\<lparr>sessionUserId = Some ''u1'', companyIdValid = True, connectStore = Inr (),
        enforceWriteRateLimit = Inr \<lparr>allowed = True, retryAfterSeconds = 0\<rparr>,
        findCompany = Inr (Some ?c),
        clock = 1000, saveCompany = Inr ()\<rparr>"
  have r: "reachesLease ?w ?c"
    by (simp add: reachesLease_def)
  show ?thesis
    using crawl_now_sets_next_and_clears_stale_lease [OF r] by simp
qed

section \<open>The fetch timeout\<close>

text \<open>
  C2. The claim is that a fetch that exceeds its timeout gives a failure with status
  \<open>error\<close> and reason "Request timed out". In the code the timeout becomes the synthetic
  HTTP status 408, which \<open>classifyFetchFailure\<close> places in its 4xx class: the failure has
  the reason "Request timed out" but the status \<open>manual_needed\<close>, whether the timer fires
  during \<open>fetch\<close> or while the body is read.
\<close>

theorem fetch_timeout_is_manual_needed:
  "transportStage maxHtmlLength (FetchThrew timedOut) =
     Some \<lparr>failStatus = FailManualNeeded, failError = ''Request timed out'',
           failConfidence = 0, failIsVerified = False, failCaptureMethod = Static\<rparr>
   \<and> transportStage maxHtmlLength (Responded 200 (Some ''text/html'') (Inl timedOut)) =
     Some \<lparr>failStatus = FailManualNeeded, failError = ''Request timed out'',
           failConfidence = 0, failIsVerified = False, failCaptureMethod = Static\<rparr>
   \<and> failStatus (classifyFetchFailure 408 ''Request timed out'') \<noteq> FailError"
  by (simp add: transportStage_def fetchStaticHtml_def fetchCatch_def timedOut_def
      classifyFetchFailure_def failure_def BLOCKED_HTTP_STATUSES_def)

section \<open>The diff engine\<close>


















section \<open>The batch runner\<close>

lemma insightPart_events:
  assumes "insightPart config world company now user diff diffId l ev = (l', ev', b)"
  shows "\<exists>new. ev' = ev @ new \<and> (\<forall>e \<in> set new. \<not> isExtracted e)"
  using assms
  by (auto simp: insightPart_def Let_def returnOk_def caught_def returnFailure_def
      split: option.splits if_splits sum.splits)

lemma diffPart_events:
  assumes "diffPart lc config world company now user extraction previous snapId l ev = (l', ev', b)"
  shows "\<exists>new. ev' = ev @ new \<and> (\<forall>e \<in> set new. \<not> isExtracted e)"
  using assms
  by (auto simp: diffPart_def Let_def returnOk_def caught_def returnFailure_def
      split: option.splits if_splits sum.splits dest!: insightPart_events)

lemma snapshotPart_events:
  assumes "snapshotPart lc config world company now user extraction l ev = (l', ev', b)"
  shows "\<exists>new. ev' = ev @ new \<and> (\<forall>e \<in> set new. \<not> isExtracted e)"
  using assms
  by (auto simp: snapshotPart_def Let_def returnOk_def caught_def returnFailure_def
      split: option.splits if_splits sum.splits dest!: diffPart_events)

lemma not_extracted_member:
  "\<forall>e \<in> set new. \<not> isExtracted e \<Longrightarrow> Extracted u r \<in> set new \<Longrightarrow> False"
  by auto

lemma extractionPart_extracted:
  assumes "extractionPart lc config world company now user url l [] = (l', ev', b)"
    and "Extracted url' (ExtractionOk ex) \<in> set ev'"
  shows "url' = url \<and> fetchAndExtractPricing world url = Inr (ExtractionOk ex)"
  using assms
  by (auto simp: extractionPart_def Let_def returnOk_def caught_def returnFailure_def
      split: option.splits if_splits sum.splits crawl_extraction_result.splits
      dest!: snapshotPart_events dest: not_extracted_member)

lemma extractionPart_gate:
  assumes "fetchAndExtractPricing world url = Inr (ExtractionOk ex)"
    and "latestContentHash company = Some (contentHash ex)"
    and "contentHash ex \<noteq> []"
  shows "extractionPart lc config world company now user url l ev =
           (l\<lparr>localContentHash := Some (contentHash ex), localConfidence := Some (confidence ex),
              finalStatus := Ok, finalErrorMessage := None, skippedByHash := True\<rparr>,
            ev @ [Extracted url (ExtractionOk ex)], False)"
  using assms by (simp add: extractionPart_def Let_def truthy_def)

lemma userPart_extracted:
  assumes "userPart lc config world company now source l [] = (l', ev', b)"
    and "Extracted url (ExtractionOk ex) \<in> set ev'"
  shows "\<exists>user. extractionPart lc config world company now user url l [] = (l', ev', b)"
  using assms
  by (auto simp: userPart_def returnFailure_def caught_def
      split: option.splits if_splits sum.splits dest: extractionPart_extracted)

lemma tryBlock_extracted:
  assumes t: "tryBlock lc config world company now = (l', ev', b)"
    and m: "Extracted url (ExtractionOk ex) \<in> set ev'"
  shows "\<exists>user l. nothingDone l \<and>
           extractionPart lc config world company now user url l [] = (l', ev', b)"
proof -
  have key: "\<exists>user l. nothingDone l \<and>
           extractionPart lc config world company now user url l [] = (l', ev', b)"
    if "userPart lc config world company now source l [] = (l', ev', b)" and "nothingDone l"
    for source l
    using userPart_extracted [OF that(1) m] that(2) by blast
  have n0: "nothingDone (initialLocals :: 'a locals)"
    by (simp add: nothingDone_def initialLocals_def)
  show ?thesis
  proof (cases "homepageUrl company")
    case None
    with t have "userPart lc config world company now (primaryPricingUrl company) initialLocals []
                 = (l', ev', b)"
      by (simp add: tryBlock_def)
    then show ?thesis using n0 by (rule key)
  next
    case (Some h)
    show ?thesis
    proof (cases "truthy (primaryPricingUrl company) \<or> h = []")
      case True
      with t Some have
        "userPart lc config world company now (primaryPricingUrl company) initialLocals []
           = (l', ev', b)"
        by (simp add: tryBlock_def)
      then show ?thesis using n0 by (rule key)
    next
      case False
      show ?thesis
      proof (cases "discoverPricingUrlsFromHomepage world h (domain company)")
        case (Inl e)
        with t Some False have "ev' = []"
          by (auto simp: tryBlock_def caught_def returnFailure_def)
        with m show ?thesis by simp
      next
        case (Inr d)
        let ?l2 = "initialLocals\<lparr>attemptedDiscovery := True,
                     discoveredCandidates :=
                       Some (mergePricingUrlCandidates world (pricingUrlCandidates company)
                               (candidates d)),
                     discoveredPrimaryPricingUrl := recommendedPrimaryUrl d\<rparr>"
        from t Some False Inr have
          "userPart lc config world company now
             (if truthy (recommendedPrimaryUrl d) then recommendedPrimaryUrl d
              else primaryPricingUrl company) ?l2 [] = (l', ev', b)"
          by (simp add: tryBlock_def Let_def)
        moreover have "nothingDone ?l2"
          by (simp add: nothingDone_def initialLocals_def)
        ultimately show ?thesis by (rule key)
      qed
    qed
  qed
qed


lemma processCompany_after_ok:
  assumes "tryBlock lc config world company now = (l, ev, False)" and "finalStatus l = Ok"
  shows "processCompany lc config constants world company now =
           (case updateCompany world (companyId company) (finalUpdate constants company now l) of
              Inl e \<Rightarrow> (Inl e, ev @ [CompanyUpdateSent (finalUpdate constants company now l)])
            | Inr _ \<Rightarrow> (Inr (toResult company l False),
                        ev @ [CompanyUpdateSent (finalUpdate constants company now l)]))"
  using assms
  by (simp add: processCompany_def Let_def auditEventTypeByStatus_def split: sum.splits)

text \<open>
  C1. Take a run of \<open>processCompany\<close> on a claimed company in which the extractor was
  called and returned an extraction whose content hash (a SHA-256 digest in hexadecimal,
  so not the empty string) equals the company's stored \<open>latestContentHash\<close>. Then the run
  did nothing but that extraction and the final update: it created no Snapshot, no Diff
  and no Insight; the update stores \<open>lastCrawlStatus = ok\<close> and the success delay; and the
  item result, returned unless the update itself throws, has status \<open>ok\<close>,
  \<open>skippedByHash\<close> set and every creation flag unset.
\<close>

theorem hash_gate_short_circuit:
  assumes run: "processCompany lc config constants world company now = (outcome, events)"
    and extracted: "Extracted url (ExtractionOk extraction) \<in> set events"
    and same: "latestContentHash company = Some (contentHash extraction)"
    and digest: "contentHash extraction \<noteq> []"
  shows "\<exists>update.
           events = [Extracted url (ExtractionOk extraction), CompanyUpdateSent update] \<and>
           setLastCrawlStatus update = Ok \<and>
           setNextCrawlAt update = now + SUCCESS_CRAWL_DELAY_MS constants \<and>
           (case outcome of
              Inl e \<Rightarrow> updateCompany world (companyId company) update = Inl e
            | Inr result \<Rightarrow>
                resultStatus result = Ok \<and> resultSkippedByHash result \<and>
                \<not> resultChanged result \<and> \<not> resultSnapshotCreated result \<and>
                \<not> resultDiffCreated result \<and> \<not> resultInsightCreated result)"
proof -
  obtain l' ev' b where t: "tryBlock lc config world company now = (l', ev', b)"
    by (cases "tryBlock lc config world company now") auto
  from run extracted have inEv: "Extracted url (ExtractionOk extraction) \<in> set ev'"
    unfolding processCompany_def t
    by (auto simp: Let_def split: sum.splits option.splits)
  from tryBlock_extracted [OF t inEv] obtain user l where
    l: "nothingDone l" and
    ep: "extractionPart lc config world company now user url l [] = (l', ev', b)"
    by blast
  from extractionPart_extracted [OF ep inEv] have
    f: "fetchAndExtractPricing world url = Inr (ExtractionOk extraction)" by simp
  have g: "(l', ev', b) =
           (l\<lparr>localContentHash := Some (contentHash extraction),
              localConfidence := Some (confidence extraction),
              finalStatus := Ok, finalErrorMessage := None, skippedByHash := True\<rparr>,
            [] @ [Extracted url (ExtractionOk extraction)], False)"
    unfolding ep [symmetric] by (rule extractionPart_gate [OF f same digest])
  then have ev': "ev' = [Extracted url (ExtractionOk extraction)]" and b: "b = False"
    by simp_all
  from g l have st: "finalStatus l' = Ok" "skippedByHash l'" "\<not> changed l'"
    "\<not> snapshotCreated l'" "\<not> diffCreated l'" "\<not> insightCreated l'"
    by (auto simp: nothingDone_def)
  let ?u = "finalUpdate constants company now l'"
  have pc: "(outcome, events) =
           (case updateCompany world (companyId company) ?u of
              Inl e \<Rightarrow> (Inl e, ev' @ [CompanyUpdateSent ?u])
            | Inr _ \<Rightarrow> (Inr (toResult company l' False), ev' @ [CompanyUpdateSent ?u]))"
    unfolding run [symmetric]
    by (rule processCompany_after_ok [OF t [unfolded b] st(1)])
  have u: "setLastCrawlStatus ?u = Ok"
    "setNextCrawlAt ?u = now + SUCCESS_CRAWL_DELAY_MS constants"
    by (simp_all add: finalUpdate_def st statusToNextDelayMs_def)
  have r: "resultStatus (toResult company l' False) = Ok"
    "resultSkippedByHash (toResult company l' False)"
    "\<not> resultChanged (toResult company l' False)"
    "\<not> resultSnapshotCreated (toResult company l' False)"
    "\<not> resultDiffCreated (toResult company l' False)"
    "\<not> resultInsightCreated (toResult company l' False)"
    by (simp_all add: toResult_def st)
  show ?thesis
  proof (cases "updateCompany world (companyId company) ?u")
    case (Inl e)
    with pc have "outcome = Inl e" "events = ev' @ [CompanyUpdateSent ?u]" by simp_all
    then show ?thesis using u Inl by (intro exI [of _ ?u]) (simp add: ev')
  next
    case (Inr x)
    with pc have "outcome = Inr (toResult company l' False)"
      "events = ev' @ [CompanyUpdateSent ?u]" by simp_all
    then show ?thesis using u r by (intro exI [of _ ?u]) (simp add: ev')
  qed
qed


theorem hash_gate_short_circuit_witness:
  "\<exists>update.
     snd (processCompany codeUnitCompare specConfig defaultConstants
            (exampleWorld (exampleExtraction storedDigest 49)) exampleCompany 1000)
       = [Extracted ''https://acme.example/pricing''
            (ExtractionOk (exampleExtraction storedDigest 49)),
          CompanyUpdateSent update] \<and>
     setLastCrawlStatus update = Ok \<and> setNextCrawlAt update = 86401000"
proof -
  let ?run = "processCompany codeUnitCompare specConfig defaultConstants
                (exampleWorld (exampleExtraction storedDigest 49)) exampleCompany 1000"
  have run: "?run = (fst ?run, snd ?run)" by simp
  have extracted: "Extracted ''https://acme.example/pricing''
                     (ExtractionOk (exampleExtraction storedDigest 49)) \<in> set (snd ?run)"
    by code_simp
  have same: "latestContentHash exampleCompany
                = Some (contentHash (exampleExtraction storedDigest 49))"
    by (simp add: exampleCompany_def exampleExtraction_def)
  have digest: "contentHash (exampleExtraction storedDigest 49) \<noteq> []"
    by (simp add: exampleExtraction_def storedDigest_def)
  show ?thesis
    using hash_gate_short_circuit [OF run extracted same digest]
    by (auto simp: defaultConstants_def)
qed

lemma shouldCreate_iff:
  "shouldCreate (buildInsightFromDiff config input) \<longleftrightarrow>
     insightSeverityGate (resolveEntitlements config (inputUser input) (inputNow input)) \<noteq> None \<and>
     canGenerateInsight (resolveEntitlements config (inputUser input) (inputNow input))
       (inputSeverity input)"
  by (simp add: buildInsightFromDiff_def Let_def split: option.splits)

lemma createInput_fields:
  assumes "createInput (buildInsightFromDiff config input) = Some created"
  shows "generatedAt created = inputNow input \<and>
         insightUserId created = userObjectId (inputUser input) \<and>
         insightDiffId created = inputDiffId input \<and>
         insightSeverityGate (resolveEntitlements config (inputUser input) (inputNow input))
           = Some (severityGate created)"
  using assms
  by (auto simp: buildInsightFromDiff_def Let_def split: option.splits if_splits)

lemma insightPart_created:
  assumes "insightPart config world company now user diff diffRecordId l ev = (l', ev', b)"
    and "InsightCreated created \<in> set ev'" and "InsightCreated created \<notin> set ev"
  shows "shouldCreate (buildInsightFromDiff config
            \<lparr>inputUser = user, inputCompanyId = companyId company, inputDiffId = diffRecordId,
             inputSeverity = diffSeverity diff,
             inputVerificationState = diffVerificationState diff,
             inputNormalizedDiff = normalizedDiff diff, inputNow = now\<rparr>) \<and>
         createInput (buildInsightFromDiff config
            \<lparr>inputUser = user, inputCompanyId = companyId company, inputDiffId = diffRecordId,
             inputSeverity = diffSeverity diff,
             inputVerificationState = diffVerificationState diff,
             inputNormalizedDiff = normalizedDiff diff, inputNow = now\<rparr>) = Some created \<and>
         set ev \<subseteq> set ev'"
  using assms
  by (auto simp: insightPart_def Let_def returnOk_def caught_def returnFailure_def
      split: option.splits if_splits sum.splits)

lemma diffPart_created:
  assumes "diffPart lc config world company now user extraction previous snapId l ev = (l', ev', b)"
    and "InsightCreated created \<in> set ev'" and "InsightCreated created \<notin> set ev"
  shows "insightJustified config world company now user ev' created"
  using assms
  unfolding diffPart_def Let_def insightJustified_def insightInputOf_def
  by (auto simp: returnOk_def caught_def returnFailure_def
      split: option.splits if_splits sum.splits dest!: insightPart_created)


lemma snapshotPart_created:
  assumes "snapshotPart lc config world company now user extraction l ev = (l', ev', b)"
    and "InsightCreated created \<in> set ev'" and "InsightCreated created \<notin> set ev"
  shows "insightJustified config world company now user ev' created"
  using assms
  unfolding snapshotPart_def Let_def
  by (auto simp: returnOk_def caught_def returnFailure_def
      split: option.splits if_splits sum.splits dest!: diffPart_created)

lemma extractionPart_created:
  assumes "extractionPart lc config world company now user url l ev = (l', ev', b)"
    and "InsightCreated created \<in> set ev'" and "InsightCreated created \<notin> set ev"
  shows "insightJustified config world company now user ev' created"
  using assms
  unfolding extractionPart_def Let_def
  by (auto simp: returnOk_def caught_def returnFailure_def
      split: option.splits if_splits sum.splits crawl_extraction_result.splits
      dest!: snapshotPart_created)

lemma userPart_created:
  assumes "userPart lc config world company now source l ev = (l', ev', b)"
    and "InsightCreated created \<in> set ev'" and "InsightCreated created \<notin> set ev"
  shows "\<exists>user. findUserById world (userId company) = Inr (Some user) \<and>
           hasAccess (resolveEntitlements config user now) \<and>
           insightJustified config world company now user ev' created"
  using assms
  unfolding userPart_def
  by (auto simp: returnOk_def caught_def returnFailure_def
      split: option.splits if_splits sum.splits
      dest!: extractionPart_created)

lemma tryBlock_created:
  assumes "tryBlock lc config world company now = (l', ev', b)"
    and "InsightCreated created \<in> set ev'"
  shows "\<exists>user. findUserById world (userId company) = Inr (Some user) \<and>
           hasAccess (resolveEntitlements config user now) \<and>
           insightJustified config world company now user ev' created"
  using assms
  unfolding tryBlock_def Let_def
  by (auto simp: caught_def returnFailure_def
      split: option.splits if_splits sum.splits
      dest!: userPart_created)

lemma insightJustified_mono:
  "insightJustified config world company now user ev created \<Longrightarrow> set ev \<subseteq> set ev2 \<Longrightarrow>
   insightJustified config world company now user ev2 created"
  unfolding insightJustified_def by blast

lemma processCompany_events:
  assumes "processCompany lc config constants world company now = (outcome, events)"
    and "tryBlock lc config world company now = (l', ev', b)"
  shows "set ev' \<subseteq> set events \<and>
         (InsightCreated created \<in> set events \<longrightarrow> InsightCreated created \<in> set ev')"
  using assms
  by (auto simp: processCompany_def Let_def split: sum.splits option.splits)

text \<open>
  C3. \<open>buildInsightFromDiff\<close> answers \<open>shouldCreate = true\<close> exactly when the user resolves
  to an insight severity gate and \<open>canGenerateInsight(entitlements, severity)\<close> holds; and
  whenever a run of \<open>processCompany\<close> writes an Insight, it is for the Diff written in the
  same run, built for the company's owner at the time \<open>now\<close> of the run with
  \<open>shouldCreate = true\<close>, so that the owner has access and the Diff's severity is in the
  owner's allowed severities as resolved at \<open>generatedAt = now\<close>.
\<close>

theorem insight_only_when_severity_allowed:
  "(shouldCreate (buildInsightFromDiff config input) \<longleftrightarrow>
      insightSeverityGate (resolveEntitlements config (inputUser input) (inputNow input)) \<noteq> None \<and>
      canGenerateInsight (resolveEntitlements config (inputUser input) (inputNow input))
        (inputSeverity input))
   \<and>
   (processCompany lc config constants world company now = (outcome, events) \<longrightarrow>
    InsightCreated created \<in> set events \<longrightarrow>
      (\<exists>user d diffRecordId.
         findUserById world (userId company) = Inr (Some user) \<and>
         DiffCreated d \<in> set events \<and> createDiff world d = Inr diffRecordId \<and>
         insightDiffId created = diffRecordId \<and>
         insightUserId created = userObjectId user \<and>
         generatedAt created = now \<and>
         shouldCreate (buildInsightFromDiff config (insightInputOf company now user d diffRecordId)) \<and>
         hasAccess (resolveEntitlements config user now) \<and>
         diffInputSeverity d \<in> set (allowedInsightSeverities (resolveEntitlements config user now))))"
proof (intro conjI impI)
  show "shouldCreate (buildInsightFromDiff config input) \<longleftrightarrow>
      insightSeverityGate (resolveEntitlements config (inputUser input) (inputNow input)) \<noteq> None \<and>
      canGenerateInsight (resolveEntitlements config (inputUser input) (inputNow input))
        (inputSeverity input)"
    by (rule shouldCreate_iff)
next
  assume run: "processCompany lc config constants world company now = (outcome, events)"
    and created: "InsightCreated created \<in> set events"
  obtain l' ev' b where t: "tryBlock lc config world company now = (l', ev', b)"
    by (cases "tryBlock lc config world company now") auto
  from processCompany_events [OF run t, of created] created
  have sub: "set ev' \<subseteq> set events" and inEv: "InsightCreated created \<in> set ev'"
    by simp_all
  from tryBlock_created [OF t inEv] obtain user where
    u: "findUserById world (userId company) = Inr (Some user)"
    and a: "hasAccess (resolveEntitlements config user now)"
    and j: "insightJustified config world company now user ev' created"
    by blast
  from insightJustified_mono [OF j sub] obtain d diffRecordId where
    d: "DiffCreated d \<in> set events" "createDiff world d = Inr diffRecordId"
    and s: "shouldCreate (buildInsightFromDiff config (insightInputOf company now user d diffRecordId))"
    and c: "createInput (buildInsightFromDiff config (insightInputOf company now user d diffRecordId))
              = Some created"
    unfolding insightJustified_def by blast
  from createInput_fields [OF c] have
    f: "generatedAt created = now" "insightUserId created = userObjectId user"
       "insightDiffId created = diffRecordId"
    by (simp_all add: insightInputOf_def)
  from s have "canGenerateInsight (resolveEntitlements config user now) (diffInputSeverity d)"
    unfolding shouldCreate_iff by (simp add: insightInputOf_def)
  then have sev: "diffInputSeverity d \<in> set (allowedInsightSeverities (resolveEntitlements config user now))"
    by (simp add: canGenerateInsight_def)
  from u d f s a sev show "\<exists>user d diffRecordId.
         findUserById world (userId company) = Inr (Some user) \<and>
         DiffCreated d \<in> set events \<and> createDiff world d = Inr diffRecordId \<and>
         insightDiffId created = diffRecordId \<and>
         insightUserId created = userObjectId user \<and>
         generatedAt created = now \<and>
         shouldCreate (buildInsightFromDiff config (insightInputOf company now user d diffRecordId)) \<and>
         hasAccess (resolveEntitlements config user now) \<and>
         diffInputSeverity d \<in> set (allowedInsightSeverities (resolveEntitlements config user now))"
    by blast
qed


theorem insight_only_when_severity_allowed_witness:
  "\<not> shouldCreate (buildInsightFromDiff specConfig exampleInsightInput) \<and>
   (\<exists>created d.
     InsightCreated created \<in> set (snd (processCompany codeUnitCompare specConfig defaultConstants
            (exampleWorld (exampleExtraction changedDigest 59)) exampleCompany 1000)) \<and>
     DiffCreated d \<in> set (snd (processCompany codeUnitCompare specConfig defaultConstants
            (exampleWorld (exampleExtraction changedDigest 59)) exampleCompany 1000)) \<and>
     generatedAt created = 1000 \<and>
     diffInputSeverity d
       \<in> set (allowedInsightSeverities (resolveEntitlements specConfig exampleUser 1000)))"
proof -
  let ?run = "processCompany codeUnitCompare specConfig defaultConstants
                (exampleWorld (exampleExtraction changedDigest 59)) exampleCompany 1000"
  have run: "?run = (fst ?run, snd ?run)" by simp
  have "list_ex isInsightCreated (snd ?run)"
    by code_simp
  then obtain e where e: "e \<in> set (snd ?run)" "isInsightCreated e"
    unfolding list_ex_iff by blast
  moreover from e(2) obtain created where "e = InsightCreated created"
    by (cases e) simp_all
  ultimately have created: "InsightCreated created \<in> set (snd ?run)"
    by simp
  have user: "findUserById (exampleWorld (exampleExtraction changedDigest 59)) (userId exampleCompany)
                = Inr (Some exampleUser)"
    by (simp add: exampleWorld_def)
  have medium: "\<not> canGenerateInsight
                   (resolveEntitlements specConfig (inputUser exampleInsightInput)
                      (inputNow exampleInsightInput))
                   (inputSeverity exampleInsightInput)"
    by (simp add: canGenerateInsight_def resolveEntitlements_def exampleInsightInput_def
        exampleUser_def specConfig_def resolvePlanTierFromPriceId_def getPlanRule_def
        getAllowedInsightSeverities_def Let_def)
  note inst = insight_only_when_severity_allowed
         [where input = exampleInsightInput and config = specConfig]
  from inst [THEN conjunct1] medium
  have first: "\<not> shouldCreate (buildInsightFromDiff specConfig exampleInsightInput)"
    by simp
  from inst [THEN conjunct2, rule_format, OF run created]
  show ?thesis using created user first by auto
qed

section \<open>The canonicalizer\<close>

lemma keyToPrice_case_variants:
  "map snd (keyToPrice [\<lparr>amount = 10, currency = ''usd'', period = Month\<rparr>,
                        \<lparr>amount = 10, currency = ''USD'', period = Month\<rparr>])
     = [\<lparr>amount = 10, currency = ''USD'', period = Month\<rparr>,
        \<lparr>amount = 10, currency = ''USD'', period = Month\<rparr>]"
  by code_simp

lemma keyToPrice_duplicates:
  "map snd (keyToPrice [\<lparr>amount = 10, currency = ''USD'', period = Month\<rparr>,
                        \<lparr>amount = 10, currency = ''USD'', period = Month\<rparr>])
     = [\<lparr>amount = 10, currency = ''USD'', period = Month\<rparr>]"
  by code_simp

text \<open>
  C6. The claim is that \<open>canonicalizePricingPayload\<close> is idempotent. \<open>uniquePrices\<close> keys a
  price by its currency as given but stores it in upper case, so two mentions that differ
  only in the case of the currency both survive the first pass, as equal entries, and the
  second pass removes one of them: for the payload below, and whatever the collation, the
  canonical form has two price mentions and the canonical form of that has one.
\<close>

theorem canonicalize_twice_differs:
  "priceMentions (canonicalizePricingPayload localeCompare
      \<lparr>sourceUrl = ''https://acme.example/pricing'', pageTitle = None, pageDescription = None,
       planNames = [],
       priceMentions = [\<lparr>amount = 10, currency = ''usd'', period = Month\<rparr>,
                        \<lparr>amount = 10, currency = ''USD'', period = Month\<rparr>],
       customPricingHints = []\<rparr>)
     = [\<lparr>amount = 10, currency = ''USD'', period = Month\<rparr>,
        \<lparr>amount = 10, currency = ''USD'', period = Month\<rparr>]
   \<and> priceMentions (canonicalizePricingPayload localeCompare
        (canonicalizePricingPayload localeCompare
           \<lparr>sourceUrl = ''https://acme.example/pricing'', pageTitle = None,
            pageDescription = None, planNames = [],
            priceMentions = [\<lparr>amount = 10, currency = ''usd'', period = Month\<rparr>,
                             \<lparr>amount = 10, currency = ''USD'', period = Month\<rparr>],
            customPricingHints = []\<rparr>))
     = [\<lparr>amount = 10, currency = ''USD'', period = Month\<rparr>]"
  by (simp add: canonicalizePricingPayload_def uniquePrices_def keyToPrice_case_variants
      keyToPrice_duplicates sortBy_def comparePrices_def signOf_def)

text \<open>A second way in which a second pass differs: a title of white space only becomes the
  empty string, which the second pass, reading it as falsy, turns into \<open>null\<close>.\<close>

lemma canonicalize_blank_title:
  "canonicalText (Some '' '') = Some [] \<and> canonicalText (canonicalText (Some '' '')) = None"
  by (simp add: canonicalText_def normalizeWhitespace_def trim_def isSpace_def)

section \<open>The price-mention scan\<close>






lemma lowerChar_of_upper:
  assumes "isUpper x"
  shows "isLower (lowerChar x)"
proof -
  from assms have "of_char (lowerChar x) = of_char x + (32::nat)"
    by (simp add: lowerChar_def isUpper_def)
  with assms show ?thesis
    by (simp add: isLower_def isUpper_def)
qed


























section \<open>The URL normalizer\<close>

lemma lower_not_upper: "isLower c \<Longrightarrow> \<not> isUpper c"
  by (simp add: isLower_def isUpper_def)

lemma lowerChar_idem: "lowerChar (lowerChar c) = lowerChar c"
proof (cases "isUpper c")
  case True
  from lowerChar_of_upper [OF True] have "\<not> isUpper (lowerChar c)"
    by (rule lower_not_upper)
  then show ?thesis by (simp add: lowerChar_def)
next
  case False
  then show ?thesis by (simp add: lowerChar_def)
qed

lemma toLowerCase_idem: "toLowerCase (toLowerCase s) = toLowerCase s"
  by (simp add: toLowerCase_def lowerChar_idem)

lemma lower_not_forbidden: "isLower c \<Longrightarrow> \<not> forbiddenHostChar c"
  by (auto simp: isLower_def forbiddenHostChar_def backslash_def)

lemma forbidden_lowerChar: "\<not> forbiddenHostChar c \<Longrightarrow> \<not> forbiddenHostChar (lowerChar c)"
proof (cases "isUpper c")
  case True
  from lowerChar_of_upper [OF True] show ?thesis by (rule lower_not_forbidden)
next
  case False
  assume "\<not> forbiddenHostChar c"
  with False show ?thesis by (simp add: lowerChar_def)
qed

lemma validHost_lower: "validHost h \<Longrightarrow> validHost (toLowerCase h)"
  by (auto simp: validHost_def toLowerCase_def list_all_iff forbidden_lowerChar)

lemma validHost_drop: "validHost h \<Longrightarrow> drop n h \<noteq> [] \<Longrightarrow> validHost (drop n h)"
  by (auto simp: validHost_def list_all_iff dest: in_set_dropD)

lemma digitVal_char: "k < 10 \<Longrightarrow> digitVal (char_of (48 + k)) = k" for k :: nat
  by (simp add: digitVal_def)

lemma isDigit_char: "k < 10 \<Longrightarrow> isDigit (char_of (48 + k))" for k :: nat
  by (simp add: isDigit_def)

lemma digitsToNat_snoc: "digitsToNat (xs @ [d]) = 10 * digitsToNat xs + digitVal d"
  by (simp add: digitsToNat_def)

lemma showNat_props:
  "showNat n \<noteq> [] \<and> list_all isDigit (showNat n) \<and> digitsToNat (showNat n) = n"
proof (induction n rule: showNat.induct)
  case (1 n)
  show ?case
  proof (cases "n < 10")
    case True
    then show ?thesis
      by (subst (1 2 3) showNat.simps) (simp add: isDigit_char digitVal_char digitsToNat_def)
  next
    case False
    with 1 have ih: "showNat (n div 10) \<noteq> []" "list_all isDigit (showNat (n div 10))"
      "digitsToNat (showNat (n div 10)) = n div 10"
      by simp_all
    have m: "n mod 10 < 10" by simp
    from False show ?thesis
      by (subst (1 2 3) showNat.simps)
        (simp add: ih isDigit_char [OF m] digitVal_char [OF m] digitsToNat_snoc)
  qed
qed

lemma plain_char:
  fixes k :: nat
  assumes "of_char c = k" "48 \<le> k" "k \<le> 70" "k \<noteq> 60" "k \<noteq> 62" "k \<noteq> 63"
  shows "\<not> inPathEncodeSet c \<and> c \<noteq> backslash"
  using assms by (auto simp: inPathEncodeSet_def backslash_def)

lemma hexDigit_plain:
  assumes "n < 16"
  shows "\<not> inPathEncodeSet (hexDigit n) \<and> hexDigit n \<noteq> backslash"
proof (cases "n < 10")
  case True
  then have "of_char (hexDigit n) = 48 + n" by (simp add: hexDigit_def)
  from plain_char [OF this] True show ?thesis by simp
next
  case False
  with assms have "of_char (hexDigit n) = 55 + n" by (simp add: hexDigit_def)
  from plain_char [OF this] False assms show ?thesis by simp
qed

lemma percent_plain: "\<not> inPathEncodeSet CHR ''%'' \<and> CHR ''%'' \<noteq> backslash"
  by (simp add: inPathEncodeSet_def backslash_def)

lemma percentEncode_plain:
  assumes "c \<noteq> backslash" "x \<in> set (percentEncode c)"
  shows "\<not> inPathEncodeSet x \<and> x \<noteq> backslash"
proof (cases "inPathEncodeSet c")
  case True
  have "of_char c div 16 < (16::nat)"
    by (rule less_mult_imp_div_less) simp
  moreover have "of_char c mod 16 < (16::nat)"
    by simp
  ultimately have "of_char c div 16 < (16::nat)" "of_char c mod 16 < (16::nat)"
    by simp_all
  from hexDigit_plain [OF this(1)] hexDigit_plain [OF this(2)] percent_plain assms(2) True
  show ?thesis by (auto simp: percentEncode_def)
next
  case False
  with assms show ?thesis by (simp add: percentEncode_def)
qed

lemma percentEncode_id: "\<not> inPathEncodeSet c \<Longrightarrow> percentEncode c = [c]"
  by (simp add: percentEncode_def)

lemma slash_plain: "\<not> inPathEncodeSet CHR ''/'' \<and> CHR ''/'' \<noteq> backslash"
  by (simp add: inPathEncodeSet_def backslash_def)

lemma encode_all_plain:
  assumes "list_all (\<lambda>c. c \<noteq> backslash) v"
  shows "list_all (\<lambda>c. \<not> inPathEncodeSet c \<and> c \<noteq> backslash) (concat (map percentEncode v))"
  using assms percentEncode_plain
  by (auto simp: list_all_iff)

lemma encode_id:
  assumes "list_all (\<lambda>c. \<not> inPathEncodeSet c) v"
  shows "concat (map percentEncode v) = v"
  using assms by (induction v) (simp_all add: percentEncode_id)

lemma unslash_no_backslash:
  "list_all (\<lambda>c. c \<noteq> backslash) (map (\<lambda>c. if c = backslash then CHR ''/'' else c) v)"
  by (induction v) (simp_all add: backslash_def)

lemma unslash_id:
  "list_all (\<lambda>c. c \<noteq> backslash) v \<Longrightarrow> map (\<lambda>c. if c = backslash then CHR ''/'' else c) v = v"
  by (induction v) simp_all

lemma parsePath_ok: "pathOk (parsePath v)"
proof -
  define w where "w = (case v of [] \<Rightarrow> ''/'' | c # _ \<Rightarrow> if isSlash c then v else CHR ''/'' # v)"
  have "\<exists>r. map (\<lambda>c. if c = backslash then CHR ''/'' else c) w = CHR ''/'' # r"
    unfolding w_def by (cases v) (auto simp: isSlash_def)
  then obtain r where r: "map (\<lambda>c. if c = backslash then CHR ''/'' else c) w = CHR ''/'' # r"
    by (erule exE)
  have p: "parsePath v = concat (map percentEncode (CHR ''/'' # r))"
    unfolding parsePath_def w_def [symmetric] r ..
  have "list_all (\<lambda>c. c \<noteq> backslash) (CHR ''/'' # r)"
    unfolding r [symmetric] by (rule unslash_no_backslash)
  from encode_all_plain [OF this] show ?thesis
    unfolding p pathOk_def
    using slash_plain by (simp add: percentEncode_id)
qed

lemma parsePath_id:
  assumes "pathOk p"
  shows "parsePath p = p"
proof -
  from assms obtain r where p: "p = CHR ''/'' # r"
    by (cases p) (auto simp: pathOk_def)
  from assms have a: "list_all (\<lambda>c. c \<noteq> backslash) p" "list_all (\<lambda>c. \<not> inPathEncodeSet c) p"
    by (auto simp: pathOk_def list_all_iff)
  have "parsePath p = concat (map percentEncode (map (\<lambda>c. if c = backslash then CHR ''/'' else c) p))"
    unfolding parsePath_def p by (simp add: isSlash_def)
  also have "\<dots> = p"
    by (simp only: unslash_id [OF a(1)] encode_id [OF a(2)])
  finally show ?thesis .
qed

lemma collapse_head: "\<exists>t. collapseSlashes (b # r) = b # t"
  by (induction "b # r" arbitrary: b r rule: collapseSlashes.induct) auto

lemma collapse_subset: "set (collapseSlashes p) \<subseteq> set p"
  by (induction p rule: collapseSlashes.induct) auto

lemma collapse_idem: "collapseSlashes (collapseSlashes p) = collapseSlashes p"
proof (induction p rule: collapseSlashes.induct)
  case (1 a b r)
  show ?case
  proof (cases "a = CHR ''/'' \<and> b = CHR ''/''")
    case True
    with 1 show ?thesis by simp
  next
    case False
    from collapse_head [of b r] obtain t where t: "collapseSlashes (b # r) = b # t"
      by blast
    from False 1 show ?thesis
      by (simp add: t) (metis collapseSlashes.simps(1) t)
  qed
qed simp_all

lemma collapse_pathOk:
  assumes "pathOk p"
  shows "pathOk (collapseSlashes p)"
proof -
  from assms obtain r where p: "p = CHR ''/'' # r"
    by (cases p) (auto simp: pathOk_def)
  from collapse_head [of "CHR ''/''" r] obtain t where t: "collapseSlashes p = CHR ''/'' # t"
    unfolding p by blast
  from assms collapse_subset [of p] show ?thesis
    unfolding pathOk_def t [symmetric] list_all_iff
    by (auto simp: t)
qed

lemma normalizeUrlPath_ok:
  assumes "pathOk p"
  shows "normalizeUrlPath p = collapseSlashes p"
  using collapse_pathOk [OF assms]
  by (auto simp: normalizeUrlPath_def pathOk_def)

lemma while_stop:
  assumes "\<forall>x \<in> set xs. P x" "r = [] \<or> \<not> P (hd r)"
  shows "takeWhile P (xs @ r) = xs" "dropWhile P (xs @ r) = r"
proof -
  from assms(2) have r: "takeWhile P r = []" "dropWhile P r = r"
    by (cases r; auto)+
  from assms(1) show "takeWhile P (xs @ r) = xs" "dropWhile P (xs @ r) = r"
    by (induction xs) (simp_all add: r)
qed

lemma while_all:
  assumes "\<forall>x \<in> set xs. P x"
  shows "takeWhile P xs = xs" "dropWhile P xs = []"
  using while_stop [OF assms, of "[]"] by simp_all

lemma serialize_canonical:
  assumes "canonicalUrl u"
  shows "serializeUrl u =
           protocol u @ ''://''
           @ (if credentialText u = [] then [] else credentialText u @ ''@'')
           @ hostname u @ portSuffix u @ pathname u"
  using assms
  by (auto simp: serializeUrl_def canonicalUrl_def credentialText_def portSuffix_def
      split: option.splits)

lemma host_chars:
  assumes "validHost h" "c \<in> set h"
  shows "\<not> endsAuthority c" "c \<noteq> CHR '':''" "c \<noteq> CHR ''@''" "\<not> isTabOrNewline c"
    "\<not> isSlash c"
proof -
  from assms have nf: "\<not> forbiddenHostChar c"
    by (simp add: validHost_def list_all_iff)
  then have a: "c \<noteq> CHR ''/''" "c \<noteq> backslash" "c \<noteq> CHR ''?''" "c \<noteq> CHR ''#''"
    "c \<noteq> CHR '':''" "c \<noteq> CHR ''@''"
    by (simp_all add: forbiddenHostChar_def)
  from nf have b: "\<not> of_char c \<le> (32::nat)"
    by (simp add: forbiddenHostChar_def)
  from a show "\<not> endsAuthority c" "c \<noteq> CHR '':''" "c \<noteq> CHR ''@''" "\<not> isSlash c"
    by (simp_all add: endsAuthority_def isSlash_def)
  from b show "\<not> isTabOrNewline c"
    by (auto simp: isTabOrNewline_def)
qed

lemma digit_chars:
  assumes "isDigit c"
  shows "\<not> endsAuthority c" "c \<noteq> CHR '':''" "c \<noteq> CHR ''@''" "\<not> isTabOrNewline c"
  using assms
  by (auto simp: isDigit_def endsAuthority_def isSlash_def backslash_def isTabOrNewline_def)

lemma port_chars:
  assumes "c \<in> set (portSuffix u)"
  shows "\<not> endsAuthority c" "c \<noteq> CHR ''@''" "\<not> isTabOrNewline c"
proof -
  from assms have "c = CHR '':'' \<or> isDigit c"
    using showNat_props by (auto simp: portSuffix_def list_all_iff split: option.splits)
  then show "\<not> endsAuthority c" "c \<noteq> CHR ''@''" "\<not> isTabOrNewline c"
    using digit_chars [of c]
    by (auto simp: endsAuthority_def isSlash_def backslash_def isTabOrNewline_def)
qed

lemma path_chars:
  assumes "pathOk p" "c \<in> set p"
  shows "c \<noteq> CHR ''?''" "c \<noteq> CHR ''#''" "\<not> isTabOrNewline c" "\<not> isControlOrSpace c"
proof -
  from assms have ne: "\<not> inPathEncodeSet c"
    by (simp add: pathOk_def list_all_iff)
  then show "c \<noteq> CHR ''?''" "c \<noteq> CHR ''#''"
    by (simp_all add: inPathEncodeSet_def)
  from ne have b: "\<not> of_char c \<le> (32::nat)"
    by (simp add: inPathEncodeSet_def)
  from b show "\<not> isTabOrNewline c"
    by (auto simp: isTabOrNewline_def)
  from b show "\<not> isControlOrSpace c"
    by (simp add: isControlOrSpace_def)
qed

lemma colon_chars: "\<not> endsAuthority CHR '':''" "\<not> isTabOrNewline CHR '':''"
  by (simp_all add: endsAuthority_def isSlash_def backslash_def isTabOrNewline_def)

lemma credential_chars:
  assumes "canonicalUrl u" "c \<in> set (credentialText u)"
  shows "\<not> endsAuthority c" "\<not> isTabOrNewline c"
proof -
  from assms(1) have un: "\<forall>x \<in> set (username u). \<not> endsAuthority x \<and> \<not> isTabOrNewline x"
    and pw: "\<forall>x \<in> set (password u). \<not> endsAuthority x \<and> \<not> isTabOrNewline x"
    by (simp_all add: canonicalUrl_def list_all_iff)
  from assms(2) have "c \<in> set (username u) \<or> c = CHR '':'' \<or> c \<in> set (password u)"
    by (auto simp: credentialText_def split: if_splits)
  with un pw colon_chars show "\<not> endsAuthority c" "\<not> isTabOrNewline c"
    by blast+
qed

lemma serialize_authority:
  assumes "canonicalUrl u"
  shows "serializeUrl u = protocol u @ ''://'' @ authorityText u @ pathname u"
  by (simp add: serialize_canonical [OF assms] authorityText_def)

lemma at_chars: "\<not> endsAuthority CHR ''@''" "\<not> isTabOrNewline CHR ''@''"
  by (simp_all add: endsAuthority_def isSlash_def backslash_def isTabOrNewline_def)

lemma hostPort_chars:
  assumes "canonicalUrl u" "c \<in> set (hostname u @ portSuffix u)"
  shows "\<not> endsAuthority c" "c \<noteq> CHR ''@''" "\<not> isTabOrNewline c"
proof -
  from assms(1) have v: "validHost (hostname u)"
    by (simp add: canonicalUrl_def)
  from assms(2) have "c \<in> set (hostname u) \<or> c \<in> set (portSuffix u)"
    by simp
  then show "\<not> endsAuthority c" "c \<noteq> CHR ''@''" "\<not> isTabOrNewline c"
    using host_chars [OF v, of c] port_chars [of c u] by blast+
qed

lemma authority_chars:
  assumes "canonicalUrl u" "c \<in> set (authorityText u)"
  shows "\<not> endsAuthority c" "\<not> isTabOrNewline c"
proof -
  from assms(2) have "c \<in> set (credentialText u) \<or> c = CHR ''@''
      \<or> c \<in> set (hostname u @ portSuffix u)"
    by (auto simp: authorityText_def split: if_splits)
  then show "\<not> endsAuthority c" "\<not> isTabOrNewline c"
    using credential_chars [OF assms(1), of c] hostPort_chars [OF assms(1), of c] at_chars
    by blast+
qed

lemma hostname_head:
  assumes "validHost h"
  shows "h \<noteq> []" "\<not> isSlash (hd h)" "hd h \<noteq> CHR '':''"
proof -
  from assms show ne: "h \<noteq> []"
    by (auto simp: validHost_def)
  then have "hd h \<in> set h"
    by simp
  from host_chars [OF assms this] show "\<not> isSlash (hd h)" "hd h \<noteq> CHR '':''"
    by simp_all
qed

lemma credential_head:
  assumes "canonicalUrl u" "credentialText u \<noteq> []"
  shows "\<not> isSlash (hd (credentialText u))"
proof -
  from assms(2) have "hd (credentialText u) \<in> set (credentialText u)"
    by simp
  from credential_chars(1) [OF assms(1) this] show ?thesis
    by (simp add: endsAuthority_def)
qed

lemma authority_head:
  assumes "canonicalUrl u"
  shows "authorityText u \<noteq> []" "\<not> isSlash (hd (authorityText u))"
proof -
  from assms have v: "validHost (hostname u)"
    by (simp add: canonicalUrl_def)
  from hostname_head [OF v] show "authorityText u \<noteq> []"
    by (simp add: authorityText_def)
  show "\<not> isSlash (hd (authorityText u))"
  proof (cases "credentialText u = []")
    case True
    with hostname_head [OF v] show ?thesis
      by (simp add: authorityText_def)
  next
    case False
    with credential_head [OF assms False] show ?thesis
      by (simp add: authorityText_def)
  qed
qed

lemma keep_when_head_stops:
  assumes "r \<noteq> []" "\<not> P (hd r)"
  shows "dropWhile P r = r"
  using assms by (cases r) simp_all

lemma last_at_split:
  assumes "\<forall>x \<in> set hp. x \<noteq> CHR ''@''"
  shows "rev (takeWhile (\<lambda>c. c \<noteq> CHR ''@'') (rev hp)) = hp"
    "rev (takeWhile (\<lambda>c. c \<noteq> CHR ''@'') (rev (cr @ ''@'' @ hp))) = hp"
proof -
  from assms have a: "\<forall>x \<in> set (rev hp). x \<noteq> CHR ''@''"
    by simp
  have b: "CHR ''@'' # rev cr = [] \<or> \<not> hd (CHR ''@'' # rev cr) \<noteq> CHR ''@''"
    by simp
  show "rev (takeWhile (\<lambda>c. c \<noteq> CHR ''@'') (rev hp)) = hp"
    unfolding while_all(1) [OF a] by simp
  have "rev (cr @ ''@'' @ hp) = rev hp @ (CHR ''@'' # rev cr)"
    by simp
  then show "rev (takeWhile (\<lambda>c. c \<noteq> CHR ''@'') (rev (cr @ ''@'' @ hp))) = hp"
    by (simp only: while_stop(1) [OF a b] rev_rev_ident)
qed

lemma hostPort_split:
  assumes "canonicalUrl u"
  shows "rev (takeWhile (\<lambda>c. c \<noteq> CHR ''@'') (rev (authorityText u))) = hostname u @ portSuffix u"
proof -
  have a: "\<forall>x \<in> set (hostname u @ portSuffix u). x \<noteq> CHR ''@''"
    using hostPort_chars(2) [OF assms] by blast
  show ?thesis
  proof (cases "credentialText u = []")
    case True
    then have "authorityText u = hostname u @ portSuffix u"
      by (simp add: authorityText_def)
    with last_at_split(1) [OF a] show ?thesis
      by simp
  next
    case False
    then have "authorityText u = credentialText u @ ''@'' @ (hostname u @ portSuffix u)"
      by (simp add: authorityText_def)
    with last_at_split(2) [OF a] show ?thesis
      by simp
  qed
qed

lemma credentials_split:
  assumes "canonicalUrl u"
  shows "(if CHR ''@'' \<in> set (authorityText u)
          then take (length (authorityText u) - length (hostname u @ portSuffix u) - 1)
                 (authorityText u)
          else []) = credentialText u"
proof (cases "credentialText u = []")
  case True
  have "CHR ''@'' \<notin> set (hostname u @ portSuffix u)"
    using hostPort_chars(2) [OF assms] by blast
  with True show ?thesis
    by (simp add: authorityText_def)
next
  case False
  then show ?thesis
    by (simp add: authorityText_def)
qed

lemma username_split:
  assumes "canonicalUrl u"
  shows "takeWhile (\<lambda>c. c \<noteq> CHR '':'') (credentialText u) = username u"
    "dropWhile (\<lambda>c. c \<noteq> CHR '':'') (credentialText u)
       = (if password u = [] then [] else CHR '':'' # password u)"
proof -
  from assms have un: "\<forall>x \<in> set (username u). x \<noteq> CHR '':''"
    by (simp add: canonicalUrl_def list_all_iff)
  have b: "CHR '':'' # password u = [] \<or> \<not> hd (CHR '':'' # password u) \<noteq> CHR '':''"
    by simp
  show "takeWhile (\<lambda>c. c \<noteq> CHR '':'') (credentialText u) = username u"
  proof (cases "password u = []")
    case True
    then have "credentialText u = username u"
      by (simp add: credentialText_def)
    then show ?thesis
      by (simp only: while_all(1) [OF un])
  next
    case False
    then have "credentialText u = username u @ (CHR '':'' # password u)"
      by (simp add: credentialText_def)
    then show ?thesis
      by (simp only: while_stop(1) [OF un b])
  qed
  show "dropWhile (\<lambda>c. c \<noteq> CHR '':'') (credentialText u)
       = (if password u = [] then [] else CHR '':'' # password u)"
  proof (cases "password u = []")
    case True
    then have "credentialText u = username u"
      by (simp add: credentialText_def)
    with True show ?thesis
      by (simp add: while_all(2) [OF un])
  next
    case False
    then have "credentialText u = username u @ (CHR '':'' # password u)"
      by (simp add: credentialText_def)
    with False show ?thesis
      by (simp add: while_stop(2) [OF un b])
  qed
qed

lemma host_split:
  assumes "canonicalUrl u"
  shows "takeWhile (\<lambda>c. c \<noteq> CHR '':'') (hostname u @ portSuffix u) = hostname u"
    "dropWhile (\<lambda>c. c \<noteq> CHR '':'') (hostname u @ portSuffix u) = portSuffix u"
proof -
  from assms have v: "validHost (hostname u)"
    by (simp add: canonicalUrl_def)
  have a: "\<forall>x \<in> set (hostname u). x \<noteq> CHR '':''"
    using host_chars(2) [OF v] by blast
  have b: "portSuffix u = [] \<or> \<not> hd (portSuffix u) \<noteq> CHR '':''"
    by (simp add: portSuffix_def split: option.splits)
  show "takeWhile (\<lambda>c. c \<noteq> CHR '':'') (hostname u @ portSuffix u) = hostname u"
    by (rule while_stop(1) [OF a b])
  show "dropWhile (\<lambda>c. c \<noteq> CHR '':'') (hostname u @ portSuffix u) = portSuffix u"
    by (rule while_stop(2) [OF a b])
qed

lemma port_split:
  assumes "canonicalUrl u"
  shows "list_all isDigit (if portSuffix u = [] then [] else tl (portSuffix u))"
    "digitsToNat (if portSuffix u = [] then [] else tl (portSuffix u)) \<le> 65535"
    "(if (if portSuffix u = [] then [] else tl (portSuffix u)) = []
         \<or> digitsToNat (if portSuffix u = [] then [] else tl (portSuffix u))
             = defaultPort (protocol u)
      then None
      else Some (digitsToNat (if portSuffix u = [] then [] else tl (portSuffix u)))) = port u"
proof -
  from assms have p: "case port u of None \<Rightarrow> True
      | Some n \<Rightarrow> n \<le> 65535 \<and> n \<noteq> defaultPort (protocol u)"
    by (simp add: canonicalUrl_def)
  have t: "(if portSuffix u = [] then [] else tl (portSuffix u))
      = (case port u of None \<Rightarrow> [] | Some n \<Rightarrow> showNat n)"
    by (simp add: portSuffix_def split: option.splits)
  have d0: "digitsToNat [] = 0"
    by (simp add: digitsToNat_def)
  show "list_all isDigit (if portSuffix u = [] then [] else tl (portSuffix u))"
    unfolding t using showNat_props by (simp split: option.splits)
  show "digitsToNat (if portSuffix u = [] then [] else tl (portSuffix u)) \<le> 65535"
    unfolding t using showNat_props p by (simp add: d0 split: option.splits)
  show "(if (if portSuffix u = [] then [] else tl (portSuffix u)) = []
         \<or> digitsToNat (if portSuffix u = [] then [] else tl (portSuffix u))
             = defaultPort (protocol u)
      then None
      else Some (digitsToNat (if portSuffix u = [] then [] else tl (portSuffix u)))) = port u"
    unfolding t using showNat_props p by (simp add: d0 split: option.splits)
qed

lemma path_split:
  assumes "pathOk p"
  shows "takeWhile (\<lambda>c. c \<noteq> CHR ''?'' \<and> c \<noteq> CHR ''#'') p = p"
    "dropWhile (\<lambda>c. c \<noteq> CHR ''?'' \<and> c \<noteq> CHR ''#'') p = []"
proof -
  have a: "\<forall>x \<in> set p. x \<noteq> CHR ''?'' \<and> x \<noteq> CHR ''#''"
    using path_chars(1,2) [OF assms] by blast
  show "takeWhile (\<lambda>c. c \<noteq> CHR ''?'' \<and> c \<noteq> CHR ''#'') p = p"
    by (rule while_all(1) [OF a])
  show "dropWhile (\<lambda>c. c \<noteq> CHR ''?'' \<and> c \<noteq> CHR ''#'') p = []"
    by (rule while_all(2) [OF a])
qed

lemma path_head:
  assumes "pathOk p"
  shows "p \<noteq> []" "endsAuthority (hd p)" "\<not> isControlOrSpace (last p)"
proof -
  from assms show ne: "p \<noteq> []" and "endsAuthority (hd p)"
    by (simp_all add: pathOk_def endsAuthority_def isSlash_def)
  then have "last p \<in> set p"
    by simp
  from path_chars(4) [OF assms this] show "\<not> isControlOrSpace (last p)" .
qed

lemma scheme_chars:
  assumes "p = ''http'' \<or> p = ''https''" "c \<in> set (p @ ''://'')"
  shows "\<not> isTabOrNewline c"
  using assms by (auto simp: isTabOrNewline_def)

lemma serialized_chars:
  assumes "canonicalUrl u" "c \<in> set (serializeUrl u)"
  shows "\<not> isTabOrNewline c"
proof -
  from assms(1) have p: "protocol u = ''http'' \<or> protocol u = ''https''"
    and po: "pathOk (pathname u)"
    by (simp_all add: canonicalUrl_def)
  have "serializeUrl u = (protocol u @ ''://'') @ authorityText u @ pathname u"
    by (simp add: serialize_authority [OF assms(1)])
  with assms(2) have "c \<in> set (protocol u @ ''://'') \<or> c \<in> set (authorityText u)
      \<or> c \<in> set (pathname u)"
    by (simp only: set_append Un_iff)
  then show ?thesis
    using scheme_chars [OF p] authority_chars(2) [OF assms(1)] path_chars(3) [OF po]
    by blast
qed

lemma strip_id:
  assumes "\<forall>c \<in> set s. \<not> isTabOrNewline c" "s \<noteq> []" "\<not> isControlOrSpace (hd s)"
    "\<not> isControlOrSpace (last s)"
  shows "stripUrlInput s = s"
proof -
  have f: "filter (\<lambda>c. \<not> isTabOrNewline c) s = s"
    using assms(1) by (simp add: filter_id_conv)
  have d: "dropWhile isControlOrSpace s = s"
    using assms(2,3) by (rule keep_when_head_stops [where P = isControlOrSpace])
  have "rev s \<noteq> []" "\<not> isControlOrSpace (hd (rev s))"
    using assms(2,4) by (simp_all add: hd_rev)
  then have r: "dropWhile isControlOrSpace (rev s) = rev s"
    by (rule keep_when_head_stops [where P = isControlOrSpace])
  show ?thesis
    by (simp only: stripUrlInput_def f d r rev_rev_ident)
qed

lemma strip_serialized:
  assumes "canonicalUrl u"
  shows "stripUrlInput (serializeUrl u) = serializeUrl u"
proof (rule strip_id)
  from assms have p: "protocol u = ''http'' \<or> protocol u = ''https''"
    and po: "pathOk (pathname u)"
    by (simp_all add: canonicalUrl_def)
  note S = serialize_authority [OF assms]
  show "\<forall>c \<in> set (serializeUrl u). \<not> isTabOrNewline c"
    using serialized_chars [OF assms] by blast
  show "serializeUrl u \<noteq> []"
    unfolding S using p by auto
  show "\<not> isControlOrSpace (hd (serializeUrl u))"
    unfolding S using p by (auto simp: isControlOrSpace_def)
  show "\<not> isControlOrSpace (last (serializeUrl u))"
    unfolding S using path_head(1,3) [OF po] by simp
qed

lemma lower_scheme: "toLowerCase ''http'' = ''http''" "toLowerCase ''https'' = ''https''"
  by code_simp+

lemma scheme_split:
  assumes "p = ''http'' \<or> p = ''https''"
  shows "takeWhile (\<lambda>c. c \<noteq> CHR '':'') (p @ ''://'' @ r) = p"
    "dropWhile isSlash (tl (dropWhile (\<lambda>c. c \<noteq> CHR '':'') (p @ ''://'' @ r)))
       = dropWhile isSlash r"
    "dropWhile (\<lambda>c. c \<noteq> CHR '':'') (p @ ''://'' @ r) \<noteq> []"
    "toLowerCase p = p"
  using assms lower_scheme by (auto simp: isSlash_def)

lemma parse_serialized:
  assumes c: "canonicalUrl u"
  shows "parseUrl (serializeUrl u) = Some u"
proof -
  from c have p: "protocol u = ''http'' \<or> protocol u = ''https''"
    and v: "validHost (hostname u)" and po: "pathOk (pathname u)"
    and sh: "search u = None" "hash u = None"
    by (simp_all add: canonicalUrl_def)
  note S = serialize_authority [OF c]
  have rest: "dropWhile isSlash (authorityText u @ pathname u) = authorityText u @ pathname u"
    using authority_head [OF c]
    by (intro keep_when_head_stops [where P = isSlash]) simp_all
  have a: "\<forall>x \<in> set (authorityText u). \<not> endsAuthority x"
    using authority_chars(1) [OF c] by blast
  have b: "pathname u = [] \<or> \<not> \<not> endsAuthority (hd (pathname u))"
    using path_head(2) [OF po] by simp
  note auth = while_stop [OF a b]
  have e1: "stripUrlInput (protocol u @ ''://'' @ authorityText u @ pathname u)
      = protocol u @ ''://'' @ authorityText u @ pathname u"
    using strip_serialized [OF c] unfolding S .
  have e2: "parseUrl (serializeUrl u)
      = (let portText = (if portSuffix u = [] then [] else tl (portSuffix u))
         in if \<not> list_all isDigit portText \<or> digitsToNat portText > 65535 then None
            else Some
              \<lparr>protocol = protocol u, username = username u, password = password u,
               hostname = toLowerCase (hostname u),
               port = (if portText = [] \<or> digitsToNat portText = defaultPort (protocol u)
                       then None else Some (digitsToNat portText)),
               pathname = parsePath (pathname u), search = None, hash = None\<rparr>)"
    unfolding S parseUrl_def e1 Let_def scheme_split [OF p] rest auth hostPort_split [OF c]
      credentials_split [OF c] username_split [OF c] host_split [OF c] path_split [OF po]
    using p v by auto
  from c have lh: "toLowerCase (hostname u) = hostname u"
    by (simp add: canonicalUrl_def)
  show ?thesis
    unfolding e2 Let_def lh parsePath_id [OF po]
    using port_split [OF c] sh by simp
qed

lemma strip_chars:
  assumes "c \<in> set (stripUrlInput s)"
  shows "\<not> isTabOrNewline c"
proof -
  from assms have "c \<in> set (dropWhile isControlOrSpace
      (rev (dropWhile isControlOrSpace (filter (\<lambda>c. \<not> isTabOrNewline c) s))))"
    by (simp add: stripUrlInput_def)
  then have "c \<in> set (rev (dropWhile isControlOrSpace (filter (\<lambda>c. \<not> isTabOrNewline c) s)))"
    by (rule set_dropWhileD)
  then have "c \<in> set (dropWhile isControlOrSpace (filter (\<lambda>c. \<not> isTabOrNewline c) s))"
    by simp
  then have "c \<in> set (filter (\<lambda>c. \<not> isTabOrNewline c) s)"
    by (rule set_dropWhileD)
  then show ?thesis
    by simp
qed

lemma in_tl: "x \<in> set (tl xs) \<Longrightarrow> x \<in> set xs"
  by (cases xs) simp_all

lemma authority_source:
  assumes "c \<in> set (takeWhile (\<lambda>c. \<not> endsAuthority c)
      (dropWhile isSlash (tl (dropWhile (\<lambda>c. c \<noteq> CHR '':'') (stripUrlInput s)))))"
  shows "\<not> endsAuthority c \<and> \<not> isTabOrNewline c"
proof -
  from set_takeWhileD [OF assms]
  have a: "c \<in> set (dropWhile isSlash (tl (dropWhile (\<lambda>c. c \<noteq> CHR '':'') (stripUrlInput s))))"
    and e: "\<not> endsAuthority c"
    by simp_all
  from a have "c \<in> set (tl (dropWhile (\<lambda>c. c \<noteq> CHR '':'') (stripUrlInput s)))"
    by (rule set_dropWhileD)
  then have "c \<in> set (dropWhile (\<lambda>c. c \<noteq> CHR '':'') (stripUrlInput s))"
    by (rule in_tl)
  then have "c \<in> set (stripUrlInput s)"
    by (rule set_dropWhileD)
  then have "\<not> isTabOrNewline c"
    by (rule strip_chars)
  with e show ?thesis
    by simp
qed

lemma credentials_source:
  assumes "c \<in> set (if CHR ''@'' \<in> set A then take n A else [])"
  shows "c \<in> set A"
  using assms by (auto dest: in_set_takeD split: if_splits)

lemma username_source:
  assumes "c \<in> set (takeWhile (\<lambda>c. c \<noteq> CHR '':'') cr)"
  shows "c \<in> set cr \<and> c \<noteq> CHR '':''"
  using set_takeWhileD [OF assms] by simp

lemma password_source:
  assumes "c \<in> set (if dropWhile (\<lambda>c. c \<noteq> CHR '':'') cr = [] then []
      else tl (dropWhile (\<lambda>c. c \<noteq> CHR '':'') cr))"
  shows "c \<in> set cr"
proof -
  from assms have "c \<in> set (tl (dropWhile (\<lambda>c. c \<noteq> CHR '':'') cr))"
    by (simp split: if_splits)
  then have "c \<in> set (dropWhile (\<lambda>c. c \<noteq> CHR '':'') cr)"
    by (rule in_tl)
  then show ?thesis
    by (rule set_dropWhileD)
qed

lemma parseUrl_canonical:
  assumes "parseUrl s = Some u"
  shows "protocol u = ''http'' \<or> protocol u = ''https''"
    "validHost (hostname u)" "toLowerCase (hostname u) = hostname u"
    "case port u of None \<Rightarrow> True | Some n \<Rightarrow> n \<le> 65535 \<and> n \<noteq> defaultPort (protocol u)"
    "pathOk (pathname u)"
    "\<forall>c \<in> set (username u). \<not> endsAuthority c \<and> c \<noteq> CHR '':'' \<and> \<not> isTabOrNewline c"
    "\<forall>c \<in> set (password u). \<not> endsAuthority c \<and> \<not> isTabOrNewline c"
proof -
  define schemeText where
    "schemeText = toLowerCase (takeWhile (\<lambda>c. c \<noteq> CHR '':'') (stripUrlInput s))"
  define afterScheme where "afterScheme = dropWhile (\<lambda>c. c \<noteq> CHR '':'') (stripUrlInput s)"
  define A where
    "A = takeWhile (\<lambda>c. \<not> endsAuthority c) (dropWhile isSlash (tl afterScheme))"
  define afterAuthority where
    "afterAuthority = dropWhile (\<lambda>c. \<not> endsAuthority c) (dropWhile isSlash (tl afterScheme))"
  define HP where "HP = rev (takeWhile (\<lambda>c. c \<noteq> CHR ''@'') (rev A))"
  define C where
    "C = (if CHR ''@'' \<in> set A then take (length A - length HP - 1) A else [])"
  define hostText where "hostText = takeWhile (\<lambda>c. c \<noteq> CHR '':'') HP"
  define portText where
    "portText = (if dropWhile (\<lambda>c. c \<noteq> CHR '':'') HP = [] then []
                 else tl (dropWhile (\<lambda>c. c \<noteq> CHR '':'') HP))"
  define afterPath where
    "afterPath = dropWhile (\<lambda>c. c \<noteq> CHR ''?'' \<and> c \<noteq> CHR ''#'') afterAuthority"
  define R where
    "R = \<lparr>protocol = schemeText,
          username = takeWhile (\<lambda>c. c \<noteq> CHR '':'') C,
          password = (if dropWhile (\<lambda>c. c \<noteq> CHR '':'') C = [] then []
                      else tl (dropWhile (\<lambda>c. c \<noteq> CHR '':'') C)),
          hostname = toLowerCase hostText,
          port = (if portText = [] \<or> digitsToNat portText = defaultPort schemeText
                  then None else Some (digitsToNat portText)),
          pathname = parsePath
            (takeWhile (\<lambda>c. c \<noteq> CHR ''?'' \<and> c \<noteq> CHR ''#'') afterAuthority),
          search = (if takeWhile (\<lambda>c. c \<noteq> CHR ''#'') afterPath = [] then None
                    else Some (tl (takeWhile (\<lambda>c. c \<noteq> CHR ''#'') afterPath))),
          hash = (if dropWhile (\<lambda>c. c \<noteq> CHR ''#'') afterPath = [] then None
                  else Some (tl (dropWhile (\<lambda>c. c \<noteq> CHR ''#'') afterPath)))\<rparr>"
  have eq: "parseUrl s
      = (if afterScheme = [] \<or> (schemeText \<noteq> ''http'' \<and> schemeText \<noteq> ''https'') then None
         else if \<not> validHost hostText then None
         else if \<not> list_all isDigit portText \<or> digitsToNat portText > 65535 then None
         else Some R)"
    unfolding parseUrl_def Let_def R_def afterPath_def portText_def hostText_def C_def HP_def
      afterAuthority_def A_def afterScheme_def schemeText_def
    by (rule refl)
  from assms have ok: "schemeText = ''http'' \<or> schemeText = ''https''" "validHost hostText"
    "list_all isDigit portText" "digitsToNat portText \<le> 65535" and u: "u = R"
    unfolding eq by (auto split: if_splits)
  show "protocol u = ''http'' \<or> protocol u = ''https''"
    using ok(1) by (simp add: u R_def)
  show "validHost (hostname u)"
    using validHost_lower [OF ok(2)] by (simp add: u R_def)
  show "toLowerCase (hostname u) = hostname u"
    by (simp add: u R_def toLowerCase_idem)
  show "case port u of None \<Rightarrow> True | Some n \<Rightarrow> n \<le> 65535 \<and> n \<noteq> defaultPort (protocol u)"
    using ok(4) by (simp add: u R_def)
  show "pathOk (pathname u)"
    by (simp add: u R_def parsePath_ok)
  have src: "\<not> endsAuthority c \<and> \<not> isTabOrNewline c" if "c \<in> set C" for c
  proof -
    from that have "c \<in> set A"
      unfolding C_def by (rule credentials_source)
    then show ?thesis
      unfolding A_def afterScheme_def by (rule authority_source)
  qed
  show "\<forall>c \<in> set (username u). \<not> endsAuthority c \<and> c \<noteq> CHR '':'' \<and> \<not> isTabOrNewline c"
  proof
    fix c
    assume "c \<in> set (username u)"
    then have "c \<in> set (takeWhile (\<lambda>c. c \<noteq> CHR '':'') C)"
      by (simp add: u R_def)
    from username_source [OF this] src [of c]
    show "\<not> endsAuthority c \<and> c \<noteq> CHR '':'' \<and> \<not> isTabOrNewline c"
      by simp
  qed
  show "\<forall>c \<in> set (password u). \<not> endsAuthority c \<and> \<not> isTabOrNewline c"
  proof
    fix c
    assume "c \<in> set (password u)"
    then have "c \<in> set (if dropWhile (\<lambda>c. c \<noteq> CHR '':'') C = [] then []
        else tl (dropWhile (\<lambda>c. c \<noteq> CHR '':'') C))"
      by (simp add: u R_def)
    from password_source [OF this] src [of c]
    show "\<not> endsAuthority c \<and> \<not> isTabOrNewline c"
      by simp
  qed
qed

lemma setHostname_keeps:
  "protocol (setHostname v u) = protocol u" "username (setHostname v u) = username u"
  "password (setHostname v u) = password u" "port (setHostname v u) = port u"
  "pathname (setHostname v u) = pathname u"
  by (simp_all add: setHostname_def)

lemma setHostname_host:
  assumes "validHost (hostname u)" "toLowerCase (hostname u) = hostname u"
  shows "validHost (hostname (setHostname v u))"
    "toLowerCase (hostname (setHostname v u)) = hostname (setHostname v u)"
  using assms validHost_lower [of v] toLowerCase_idem [of v]
  by (simp_all add: setHostname_def)

lemma normalizeUrl_result:
  assumes "normalizeUrl x = Some y"
  obtains u where "canonicalUrl u" "y = serializeUrl u"
proof -
  define prepared where "prepared = (if includesText x ''://'' then x else ''https://'' @ x)"
  define N where "N = (\<lambda>u. setPathname
      (normalizeUrlPath
        (pathname ((setHostname (normalizeHostname (hostname u)) u)\<lparr>hash := None, search := None\<rparr>)))
      ((setHostname (normalizeHostname (hostname u)) u)\<lparr>hash := None, search := None\<rparr>))"
  have eq: "normalizeUrl x
      = (case parseUrl prepared of
           None \<Rightarrow> None
         | Some u \<Rightarrow>
             if protocol u \<noteq> ''http'' \<and> protocol u \<noteq> ''https'' then None
             else Some (serializeUrl (N u)))"
    unfolding normalizeUrl_def Let_def prepared_def N_def by (rule refl)
  from assms obtain u0 where p0: "parseUrl prepared = Some u0" and y: "y = serializeUrl (N u0)"
    unfolding eq by (auto split: option.splits if_splits)
  note f = parseUrl_canonical [OF p0]
  define u1 where "u1 = setHostname (normalizeHostname (hostname u0)) u0"
  have n: "N u0 = u1\<lparr>hash := None, search := None,
      pathname := parsePath (normalizeUrlPath (pathname u0))\<rparr>"
    by (simp add: N_def u1_def setPathname_def setHostname_keeps)
  have pth: "parsePath (normalizeUrlPath (pathname u0)) = collapseSlashes (pathname u0)"
    by (simp only: normalizeUrlPath_ok [OF f(5)] parsePath_id [OF collapse_pathOk [OF f(5)]])
  have "canonicalUrl (N u0)"
    unfolding n pth canonicalUrl_def
    using f setHostname_host [OF f(2,3), of "normalizeHostname (hostname u0)"]
      collapse_pathOk [OF f(5)] collapse_idem [of "pathname u0"]
    by (simp add: u1_def setHostname_keeps list_all_iff split: option.splits)
  with y show ?thesis
    by (rule that [rotated])
qed

lemma includes_scheme:
  assumes "p = ''http'' \<or> p = ''https''"
  shows "includesText (p @ ''://'' @ r) ''://''"
  using assms by (auto simp: startsWith_def)

lemma second_pass:
  assumes c: "canonicalUrl u" and nw: "\<not> startsWith (hostname u) ''www.''"
  shows "normalizeUrl (serializeUrl u) = Some (serializeUrl u)"
proof -
  from c have p: "protocol u = ''http'' \<or> protocol u = ''https''"
    and v: "validHost (hostname u)" and lh: "toLowerCase (hostname u) = hostname u"
    and po: "pathOk (pathname u)" and cs: "collapseSlashes (pathname u) = pathname u"
    and sh: "search u = None" "hash u = None"
    by (simp_all add: canonicalUrl_def)
  have inc: "includesText (serializeUrl u) ''://''"
    unfolding serialize_authority [OF c] by (rule includes_scheme [OF p])
  have h: "normalizeHostname (hostname u) = hostname u"
    by (simp add: normalizeHostname_def Let_def lh nw)
  have s1: "setHostname (hostname u) u = u"
    by (simp add: setHostname_def v lh)
  have s2: "u\<lparr>hash := None\<rparr> = u" "u\<lparr>search := None\<rparr> = u"
    using sh by (cases u; simp)+
  have np: "normalizeUrlPath (pathname u) = pathname u"
    by (simp add: normalizeUrlPath_ok [OF po] cs)
  have s3: "setPathname (pathname u) u = u"
    by (simp add: setPathname_def parsePath_id [OF po])
  show ?thesis
    using p by (simp add: normalizeUrl_def Let_def inc parse_serialized [OF c] h s1 s2 np s3)
qed

lemmas url_eval = normalizeUrl_def parseUrl_def stripUrlInput_def isTabOrNewline_def
  isControlOrSpace_def toLowerCase_def lowerChar_def isUpper_def isSlash_def backslash_def
  endsAuthority_def validHost_def forbiddenHostChar_def isDigit_def digitsToNat_def digitVal_def
  parsePath_def percentEncode_def inPathEncodeSet_def defaultPort_def startsWith_def
  normalizeHostname_def setHostname_def setPathname_def normalizeUrlPath_def serializeUrl_def

text \<open>
  C7, the claim as stated, fails: \<open>normalizeHostname\<close> removes one leading \<open>www.\<close> only, so
  \<open>www.www.example.com\<close> normalizes to \<open>https://www.example.com/\<close>, and normalizing that
  once more gives \<open>https://example.com/\<close>.
\<close>

theorem normalizeUrl_twice_changes_www_www:
  "normalizeUrl ''www.www.example.com'' = Some ''https://www.example.com/''
   \<and> normalizeUrl ''https://www.example.com/'' = Some ''https://example.com/''"
  by (simp add: url_eval)

text \<open>
  C7, amended. When \<open>normalizeUrl x\<close> is not null and the host of the result does not begin
  with \<open>www.\<close>, normalizing the result gives the result again.
\<close>

theorem normalizeUrl_idempotent_without_www:
  assumes "normalizeUrl x = Some y" "\<not> hostHasWww y"
  shows "normalizeUrl y = Some y"
proof -
  from assms(1) obtain u where c: "canonicalUrl u" and y: "y = serializeUrl u"
    by (rule normalizeUrl_result)
  have p: "parseUrl y = Some u"
    unfolding y by (rule parse_serialized [OF c])
  from assms(2) have "\<not> startsWith (hostname u) ''www.''"
    by (simp add: hostHasWww_def p)
  from second_pass [OF c this] show ?thesis
    by (simp only: y)
qed

theorem normalizeUrl_idempotent_without_www_witness:
  "normalizeUrl ''http://www.example.com:80//plans//pro?ref=1#top''
     = Some ''http://example.com/plans/pro''
   \<and> \<not> hostHasWww ''http://example.com/plans/pro''
   \<and> normalizeUrl ''http://example.com/plans/pro'' = Some ''http://example.com/plans/pro''"
proof -
  have a: "normalizeUrl ''http://www.example.com:80//plans//pro?ref=1#top''
      = Some ''http://example.com/plans/pro''"
    by (simp add: url_eval)
  have b: "\<not> hostHasWww ''http://example.com/plans/pro''"
    by (simp add: hostHasWww_def url_eval)
  from normalizeUrl_idempotent_without_www [OF a b] a b show ?thesis
    by simp
qed

end
